theory Spec2Isabelle
  imports Main "HOL-Library.Sublist"
begin

section \<open>Errors\<close>

text \<open>
  The exceptions the modelled code can meet: \<open>OverflowError\<close> from date arithmetic past
  year 9999, \<open>sqlite3.IntegrityError\<close> from a violated table constraint, and the generic
  \<open>Exception\<close> that the \<open>book_*\<close> functions of database.py raise in its place.
\<close>

datatype error = OverflowError | IntegrityError string | Exception string

section \<open>Dates: datetime.now(), timedelta(days=1), strftime('%Y-%m-%d')\<close>

datatype date = Date (year: nat) (month: nat) (day: nat)

definition is_leap :: "nat \<Rightarrow> bool" where
  "is_leap y = (y mod 4 = 0 \<and> (y mod 100 \<noteq> 0 \<or> y mod 400 = 0))"

definition days_in_month :: "nat \<Rightarrow> nat \<Rightarrow> nat" where
  "days_in_month y m =
     (if m = 2 then (if is_leap y then 29 else 28)
      else if m = 4 \<or> m = 6 \<or> m = 9 \<or> m = 11 then 30 else 31)"

text \<open>The values a Python \<open>datetime\<close> can hold (MINYEAR = 1, MAXYEAR = 9999).\<close>

definition valid_date :: "date \<Rightarrow> bool" where
  "valid_date d =
     (1 \<le> year d \<and> year d \<le> 9999 \<and> 1 \<le> month d \<and> month d \<le> 12 \<and>
      1 \<le> day d \<and> day d \<le> days_in_month (year d) (month d))"

text \<open>\<open>current_date + timedelta(days=1)\<close>; past 9999-12-31 Python raises OverflowError.\<close>

definition add_one_day :: "date \<Rightarrow> error + date" where
  "add_one_day d =
     (if day d < days_in_month (year d) (month d) then Inr (Date (year d) (month d) (day d + 1))
      else if month d < 12 then Inr (Date (year d) (month d + 1) 1)
      else if year d < 9999 then Inr (Date (year d + 1) 1 1)
      else Inl OverflowError)"

definition digit :: "nat \<Rightarrow> char" where
  "digit n = char_of (48 + n mod 10)"

definition zfill2 :: "nat \<Rightarrow> string" where
  "zfill2 n = [digit (n div 10), digit n]"

definition zfill4 :: "nat \<Rightarrow> string" where
  "zfill4 n = [digit (n div 1000), digit (n div 100), digit (n div 10), digit n]"

text \<open>
  \<open>strftime('%Y-%m-%d')\<close>: month and day on two digits, the year on four (for a year
  below 1000 the padding of \<open>%Y\<close> depends on the platform's C library; the clock of a
  running service is far above that).
\<close>

definition strftime :: "date \<Rightarrow> string" where
  "strftime d = zfill4 (year d) @ ''-'' @ zfill2 (month d) @ ''-'' @ zfill2 (day d)"

text \<open>
  SQLite compares TEXT values with the BINARY collation: byte by byte, and a proper prefix
  sorts first. \<open>text_le a b\<close> is the SQL condition \<open>a <= b\<close> on two TEXT values.
\<close>

fun text_le :: "string \<Rightarrow> string \<Rightarrow> bool" where
  "text_le [] ys = True"
| "text_le (x # xs) [] = False"
| "text_le (x # xs) (y # ys) =
     (if x = y then text_le xs ys else (of_char x :: nat) < of_char y)"

text \<open>
  What a scan or a request reads from its environment: \<open>datetime.now()\<close> cut to its date,
  and the text SQLite's \<open>datetime('now')\<close> yields.
\<close>

record clock =
  now :: date
  sql_now :: string

section \<open>The database (init_db)\<close>

text \<open>
  One record per table, with the columns the modelled statements read or write; the
  other columns (descriptions, images, locations, passwords) are left out. A column that
  several tables share under one name carries the table's name here, as record fields
  are global: \<open>space_name\<close> and \<open>event_name\<close> are the columns \<open>spaces.name\<close> and
  \<open>events.name\<close>, \<open>event_date\<close> is \<open>events.date\<close>, \<open>resource_owner\<close> is
  \<open>resources.user_id\<close>, \<open>ident\<close> is \<open>users.id\<close>.
\<close>

record user =
  ident :: nat
  user_name :: string
  email :: string

record resource =
  resource_id :: nat
  resource_owner :: nat
  title :: string
  availability :: "string option"

record space =
  space_id :: nat
  space_name :: string
  space_availability :: "string option"
  created_by :: nat

record event =
  event_id :: nat
  event_name :: string
  event_date :: string
  hosted_by :: nat

text \<open>
  The tables resource_bookings, space_bookings and event_bookings have the same four
  columns; \<open>entity_id\<close> is the column resource_id, space_id or event_id.
\<close>

record booking =
  booking_id :: nat
  user_id :: nat
  entity_id :: nat
  booking_date :: string

text \<open>\<open>sender_id\<close> is \<open>None\<close> for SQL NULL.\<close>

record message =
  message_id :: nat
  sender_id :: "nat option"
  receiver_id :: nat
  content :: string
  timestamp :: string
  is_system_message :: nat

text \<open>
  A table with an \<open>INTEGER PRIMARY KEY AUTOINCREMENT\<close>: its rows in rowid order (the order
  of a table scan) and the largest rowid ever used, which SQLite keeps in sqlite_sequence.
\<close>

record 'r table =
  rows :: "'r list"
  last_rowid :: nat

text \<open>
  \<open>foreign_keys\<close> is SQLite's foreign-key enforcement. The code never issues
  \<open>PRAGMA foreign_keys = ON\<close>, so it is whatever the library was built with (off by
  default); nothing below depends on its value unless stated.
\<close>

record database =
  users :: "user list"
  resources :: "resource list"
  spaces :: "space list"
  events :: "event list"
  resource_bookings :: "booking table"
  space_bookings :: "booking table"
  event_bookings :: "booking table"
  messages :: "message table"
  foreign_keys :: bool

datatype kind = Resource | Space | Event

fun bookings :: "kind \<Rightarrow> database \<Rightarrow> booking table" where
  "bookings Resource db = resource_bookings db"
| "bookings Space db = space_bookings db"
| "bookings Event db = event_bookings db"

fun set_bookings :: "kind \<Rightarrow> booking table \<Rightarrow> database \<Rightarrow> database" where
  "set_bookings Resource t db = db\<lparr>resource_bookings := t\<rparr>"
| "set_bookings Space t db = db\<lparr>space_bookings := t\<rparr>"
| "set_bookings Event t db = db\<lparr>event_bookings := t\<rparr>"

text \<open>The primary key and the display column of each catalog table.\<close>

fun labels :: "kind \<Rightarrow> database \<Rightarrow> (nat \<times> string) list" where
  "labels Resource db = map (\<lambda>r. (resource_id r, title r)) (resources db)"
| "labels Space db = map (\<lambda>s. (space_id s, space_name s)) (spaces db)"
| "labels Event db = map (\<lambda>e. (event_id e, event_name e)) (events db)"

text \<open>The rowid AUTOINCREMENT gives a new row: one more than the largest ever used.\<close>

definition next_rowid :: "('r \<Rightarrow> nat) \<Rightarrow> 'r table \<Rightarrow> nat" where
  "next_rowid key t = Suc (foldr max (map key (rows t)) (last_rowid t))"

section \<open>Catalog lookups (database.py)\<close>

definition get_user_by_id :: "nat \<Rightarrow> database \<Rightarrow> user option" where
  "get_user_by_id uid db = find (\<lambda>u. ident u = uid) (users db)"

definition get_resource_by_id :: "nat \<Rightarrow> database \<Rightarrow> resource option" where
  "get_resource_by_id rid db = find (\<lambda>r. resource_id r = rid) (resources db)"

definition get_space_by_id :: "nat \<Rightarrow> database \<Rightarrow> space option" where
  "get_space_by_id sid db = find (\<lambda>s. space_id s = sid) (spaces db)"

definition get_event_by_id :: "nat \<Rightarrow> database \<Rightarrow> event option" where
  "get_event_by_id eid db = find (\<lambda>e. event_id e = eid) (events db)"

text \<open>
  \<open>UPDATE resources SET title = ?, description = ?, category = ?, availability = ?
  WHERE resource_id = ?\<close>; description and category are columns left out of the model.
\<close>

definition update_resource ::
    "nat \<Rightarrow> string \<Rightarrow> string \<Rightarrow> string \<Rightarrow> string \<Rightarrow> database \<Rightarrow> database" where
  "update_resource rid new_title description category new_availability db =
     db\<lparr>resources :=
          map (\<lambda>r. if resource_id r = rid
                    then r\<lparr>title := new_title, availability := Some new_availability\<rparr> else r)
              (resources db)\<rparr>"

text \<open>edit_space: \<open>UPDATE spaces SET name = ?, ..., availability = ? WHERE space_id = ?\<close>.\<close>

definition update_space :: "nat \<Rightarrow> string \<Rightarrow> string \<Rightarrow> database \<Rightarrow> database" where
  "update_space sid new_name new_availability db =
     db\<lparr>spaces :=
          map (\<lambda>s. if space_id s = sid
                    then s\<lparr>space_name := new_name, space_availability := Some new_availability\<rparr>
                    else s)
              (spaces db)\<rparr>"

section \<open>Notification emitter (database.py)\<close>

text \<open>
  \<open>INSERT INTO messages\<close> under the constraints init_db declares: \<open>sender_id INTEGER NOT
  NULL\<close> (SQLite checks NOT NULL first), then the two foreign keys when enforcement is on,
  then a fresh \<open>message_id\<close>. A failed statement leaves the table as it was.
\<close>

definition insert_message ::
    "nat option \<Rightarrow> nat \<Rightarrow> string \<Rightarrow> string \<Rightarrow> nat \<Rightarrow> database \<Rightarrow> error + database" where
  "insert_message sender receiver text ts system_flag db =
     (case sender of
        None \<Rightarrow> Inl (IntegrityError ''NOT NULL constraint failed: messages.sender_id'')
      | Some s \<Rightarrow>
          if foreign_keys db \<and> (get_user_by_id s db = None \<or> get_user_by_id receiver db = None)
          then Inl (IntegrityError ''FOREIGN KEY constraint failed'')
          else
            let t = messages db; i = next_rowid message_id t
            in Inr (db\<lparr>messages :=
                 \<lparr>rows = rows t @
                    [\<lparr>message_id = i, sender_id = sender, receiver_id = receiver,
                      content = text, timestamp = ts, is_system_message = system_flag\<rparr>],
                  last_rowid = i\<rparr>\<rparr>))"

text \<open>send_message: a user's message; \<open>is_system_message\<close> takes its default 0; errors are re-raised.\<close>

definition send_message :: "clock \<Rightarrow> nat \<Rightarrow> nat \<Rightarrow> string \<Rightarrow> database \<Rightarrow> error + database" where
  "send_message clk sender receiver text db =
     insert_message (Some sender) receiver text (sql_now clk) 0 db"

text \<open>
  The lines the emitter and the scheduler job print, by the values their f-strings
  interpolate. The other print calls of the code are left out.
\<close>

datatype printed =
    Sending nat string
  | MessageSent nat string
  | ErrorSending error
  | Running
  | NotificationsSent
  | ErrorRunning error

record world =
  store :: database
  stdout :: "printed list"

definition print_line :: "printed \<Rightarrow> world \<Rightarrow> world" where
  "print_line line w = w\<lparr>stdout := stdout w @ [line]\<rparr>"

text \<open>
  send_system_message: the insert names \<open>NULL\<close> as sender and 1 as system flag; every
  exception is caught and printed, so the function always returns normally.
\<close>

definition send_system_message :: "clock \<Rightarrow> nat \<Rightarrow> string \<Rightarrow> world \<Rightarrow> world" where
  "send_system_message clk receiver text w =
     (let w1 = print_line (Sending receiver text) w
      in case insert_message None receiver text (sql_now clk) 1 (store w1) of
           Inr db' \<Rightarrow> print_line (MessageSent receiver text) (w1\<lparr>store := db'\<rparr>)
         | Inl e \<Rightarrow> print_line (ErrorSending e) w1)"

section \<open>Booking store (database.py)\<close>

fun noun :: "kind \<Rightarrow> string" where
  "noun Resource = ''resource''"
| "noun Space = ''space''"
| "noun Event = ''event''"

fun Noun :: "kind \<Rightarrow> string" where
  "Noun Resource = ''Resource''"
| "Noun Space = ''Space''"
| "Noun Event = ''Event''"

definition str_error :: "error \<Rightarrow> string" where
  "str_error e = (case e of OverflowError \<Rightarrow> ''date value out of range''
                          | IntegrityError m \<Rightarrow> m | Exception m \<Rightarrow> m)"

text \<open>
  \<open>INSERT INTO <kind>_bookings (user_id, <kind>_id, booking_date) VALUES (?, ?, ?)\<close>. The
  tables declare no UNIQUE constraint; the only checks are the two foreign keys, when
  enforcement is on. The new row gets a fresh \<open>booking_id\<close> and goes last in rowid order.
\<close>

definition insert_booking :: "kind \<Rightarrow> nat \<Rightarrow> nat \<Rightarrow> string \<Rightarrow> database \<Rightarrow> error + database" where
  "insert_booking k uid eid bdate db =
     (if foreign_keys db \<and> (get_user_by_id uid db = None \<or> eid \<notin> set (map fst (labels k db)))
      then Inl (IntegrityError ''FOREIGN KEY constraint failed'')
      else
        let t = bookings k db; i = next_rowid booking_id t
        in Inr (set_bookings k
             \<lparr>rows = rows t @
                [\<lparr>booking_id = i, user_id = uid, entity_id = eid, booking_date = bdate\<rparr>],
              last_rowid = i\<rparr> db))"

text \<open>
  book_resource, book_space, book_event: the same code on the three tables. An
  IntegrityError leaves as a generic Exception.
\<close>

definition book :: "kind \<Rightarrow> nat \<Rightarrow> nat \<Rightarrow> string \<Rightarrow> database \<Rightarrow> error + database" where
  "book k uid eid bdate db =
     (case insert_booking k uid eid bdate db of
        Inr db' \<Rightarrow> Inr db'
      | Inl (IntegrityError m) \<Rightarrow>
          Inl (Exception (''Integrity error in book_'' @ noun k @ '': '' @ m))
      | Inl e \<Rightarrow>
          Inl (Exception (''Unexpected error in book_'' @ noun k @ '': '' @ str_error e)))"

abbreviation book_resource :: "nat \<Rightarrow> nat \<Rightarrow> string \<Rightarrow> database \<Rightarrow> error + database" where
  "book_resource \<equiv> book Resource"

abbreviation book_space :: "nat \<Rightarrow> nat \<Rightarrow> string \<Rightarrow> database \<Rightarrow> error + database" where
  "book_space \<equiv> book Space"

abbreviation book_event :: "nat \<Rightarrow> nat \<Rightarrow> string \<Rightarrow> database \<Rightarrow> error + database" where
  "book_event \<equiv> book Event"

text \<open>
  get_resource_bookings_by_user, get_space_bookings_by_user, get_event_bookings_by_user:
  \<open>SELECT b.*, e.<label> FROM <kind>_bookings b JOIN <catalog> e ON b.<kind>_id =
  e.<kind>_id WHERE b.user_id = ?\<close>. The statement has no ORDER BY; the rows come as
  SQLite's nested loop yields them: the bookings table scanned in rowid order, the catalog
  row looked up by its primary key.
\<close>

definition get_bookings_by_user :: "kind \<Rightarrow> nat \<Rightarrow> database \<Rightarrow> (booking \<times> string) list" where
  "get_bookings_by_user k uid db =
     [(b, snd e). b \<leftarrow> rows (bookings k db), e \<leftarrow> labels k db,
                  entity_id b = fst e, user_id b = uid]"

abbreviation get_resource_bookings_by_user :: "nat \<Rightarrow> database \<Rightarrow> (booking \<times> string) list" where
  "get_resource_bookings_by_user \<equiv> get_bookings_by_user Resource"

abbreviation get_space_bookings_by_user :: "nat \<Rightarrow> database \<Rightarrow> (booking \<times> string) list" where
  "get_space_bookings_by_user \<equiv> get_bookings_by_user Space"

abbreviation get_event_bookings_by_user :: "nat \<Rightarrow> database \<Rightarrow> (booking \<times> string) list" where
  "get_event_bookings_by_user \<equiv> get_bookings_by_user Event"

section \<open>Reminder scanner\<close>

definition quoted :: "string \<Rightarrow> string" where
  "quoted s = CHR 0x27 # s @ [CHR 0x27]"

fun subject :: "kind \<Rightarrow> string" where
  "subject Resource = ''resource booking''"
| "subject Space = ''space booking''"
| "subject Event = ''event''"

text \<open>app.py: \<open>f"Reminder: Your resource booking '{title}' is scheduled for tomorrow."\<close>\<close>

definition reminder_tomorrow :: "kind \<Rightarrow> string \<Rightarrow> string" where
  "reminder_tomorrow k label =
     ''Reminder: Your '' @ subject k @ '' '' @ quoted label @ '' is scheduled for tomorrow.''"

text \<open>database.py: \<open>f"Reminder: Your resource booking '{title}' is scheduled for {booking_date}."\<close>\<close>

definition reminder_on :: "kind \<Rightarrow> string \<Rightarrow> string \<Rightarrow> string" where
  "reminder_on k label d =
     ''Reminder: Your '' @ subject k @ '' '' @ quoted label @ '' is scheduled for '' @ d @ ''.''"

subsection \<open>check_upcoming_bookings of app.py\<close>

text \<open>
  The three SELECT statements; each row is (user_id, label, date). Resources and spaces
  are chosen by the booking row's \<open>booking_date\<close>, events by the event's \<open>date\<close>.
\<close>

definition due_resources_app :: "string \<Rightarrow> database \<Rightarrow> (nat \<times> string \<times> string) list" where
  "due_resources_app upcoming_date db =
     [(user_id rb, title r, booking_date rb).
        rb \<leftarrow> rows (resource_bookings db), r \<leftarrow> resources db,
        entity_id rb = resource_id r, booking_date rb = upcoming_date]"

definition due_spaces_app :: "string \<Rightarrow> database \<Rightarrow> (nat \<times> string \<times> string) list" where
  "due_spaces_app upcoming_date db =
     [(user_id sb, space_name s, booking_date sb).
        sb \<leftarrow> rows (space_bookings db), s \<leftarrow> spaces db,
        entity_id sb = space_id s, booking_date sb = upcoming_date]"

definition due_events_app :: "string \<Rightarrow> database \<Rightarrow> (nat \<times> string \<times> string) list" where
  "due_events_app upcoming_date db =
     [(user_id eb, event_name e, event_date e).
        eb \<leftarrow> rows (event_bookings db), e \<leftarrow> events db,
        entity_id eb = event_id e, event_date e = upcoming_date]"

text \<open>
  This definition comes after the import of database.py's function of the same name and
  replaces it in app.py's namespace: it is the one the scheduler job runs.
\<close>

definition check_upcoming_bookings_app :: "clock \<Rightarrow> world \<Rightarrow> error + world" where
  "check_upcoming_bookings_app clk w =
     (case add_one_day (now clk) of
        Inl e \<Rightarrow> Inl e
      | Inr tomorrow \<Rightarrow>
          let upcoming_date = strftime tomorrow;
              w1 = foldl (\<lambda>w (uid, label, d).
                            send_system_message clk uid (reminder_tomorrow Resource label) w)
                         w (due_resources_app upcoming_date (store w));
              w2 = foldl (\<lambda>w (uid, label, d).
                            send_system_message clk uid (reminder_tomorrow Space label) w)
                         w1 (due_spaces_app upcoming_date (store w1));
              w3 = foldl (\<lambda>w (uid, label, d).
                            send_system_message clk uid (reminder_tomorrow Event label) w)
                         w2 (due_events_app upcoming_date (store w2))
          in Inr w3)"

subsection \<open>check_upcoming_bookings of database.py\<close>

definition due_resources_db :: "string \<Rightarrow> database \<Rightarrow> (nat \<times> string \<times> string) list" where
  "due_resources_db current_date db =
     [(user_id rb, title r, booking_date rb).
        rb \<leftarrow> rows (resource_bookings db), r \<leftarrow> resources db,
        entity_id rb = resource_id r, text_le current_date (booking_date rb)]"

definition due_spaces_db :: "string \<Rightarrow> database \<Rightarrow> (nat \<times> string \<times> string) list" where
  "due_spaces_db current_date db =
     [(user_id sb, space_name s, booking_date sb).
        sb \<leftarrow> rows (space_bookings db), s \<leftarrow> spaces db,
        entity_id sb = space_id s, text_le current_date (booking_date sb)]"

definition due_events_db :: "string \<Rightarrow> database \<Rightarrow> (nat \<times> string \<times> string) list" where
  "due_events_db current_date db =
     [(user_id eb, event_name e, event_date e).
        eb \<leftarrow> rows (event_bookings db), e \<leftarrow> events db,
        entity_id eb = event_id e, text_le current_date (event_date e)]"

text \<open>
  Its \<open>except\<close> clause prints and re-raises; no statement inside can raise, since
  send_system_message catches its own errors.
\<close>

definition check_upcoming_bookings_db :: "clock \<Rightarrow> world \<Rightarrow> world" where
  "check_upcoming_bookings_db clk w =
     (let current_date = strftime (now clk);
          w1 = foldl (\<lambda>w (uid, label, d).
                        send_system_message clk uid (reminder_on Resource label d) w)
                     w (due_resources_db current_date (store w));
          w2 = foldl (\<lambda>w (uid, label, d).
                        send_system_message clk uid (reminder_on Space label d) w)
                     w1 (due_spaces_db current_date (store w1));
          w3 = foldl (\<lambda>w (uid, label, d).
                        send_system_message clk uid (reminder_on Event label d) w)
                     w2 (due_events_db current_date (store w2))
      in w3)"

subsection \<open>Scheduler job (app.py)\<close>

definition schedule_notifications :: "clock \<Rightarrow> world \<Rightarrow> world" where
  "schedule_notifications clk w =
     (let w0 = print_line Running w
      in case check_upcoming_bookings_app clk w0 of
           Inr w' \<Rightarrow> print_line NotificationsSent w'
         | Inl e \<Rightarrow> print_line (ErrorRunning e) w0)"

text \<open>
  \<open>scheduler.add_job(..., 'interval', seconds=30)\<close>: one run of the job per tick, each with
  the clock reading of its tick.
\<close>

definition scheduler :: "clock list \<Rightarrow> world \<Rightarrow> world" where
  "scheduler ticks w = foldl (\<lambda>w clk. schedule_notifications clk w) w ticks"

section \<open>Booking routes (app.py)\<close>

datatype page = Login | ListPage kind | ViewPage kind nat | Profile

text \<open>What a route answers: the flashed message with its category, and the redirect.\<close>

record response =
  flash :: "string \<times> string"
  redirect :: page

text \<open>
  \<open>if not user_id\<close> on \<open>session.get('user_id')\<close>: \<open>None\<close> and 0 both count as logged
  out; otherwise the session names the acting user.
\<close>

definition session_user :: "nat option \<Rightarrow> nat option" where
  "session_user session =
     (case session of None \<Rightarrow> None | Some uid \<Rightarrow> if uid = 0 then None else Some uid)"

fun entity_found :: "kind \<Rightarrow> nat \<Rightarrow> database \<Rightarrow> bool" where
  "entity_found Resource eid db = (get_resource_by_id eid db \<noteq> None)"
| "entity_found Space eid db = (get_space_by_id eid db \<noteq> None)"
| "entity_found Event eid db = (get_event_by_id eid db \<noteq> None)"

text \<open>\<open>SELECT 1 FROM <kind>_bookings WHERE user_id = ? AND <kind>_id = ?\<close> found a row.\<close>

definition already_booked :: "kind \<Rightarrow> nat \<Rightarrow> nat \<Rightarrow> database \<Rightarrow> bool" where
  "already_booked k uid eid db =
     list_ex (\<lambda>b. user_id b = uid \<and> entity_id b = eid) (rows (bookings k db))"

text \<open>
  book_resource_route, book_space_route, book_event_route: the same code on the three
  kinds. The store raises a generic Exception, so the \<open>except sqlite3.IntegrityError\<close>
  clause never applies and every failure flashes the "unexpected error" text.
\<close>

definition book_route :: "kind \<Rightarrow> clock \<Rightarrow> nat option \<Rightarrow> nat \<Rightarrow> database \<Rightarrow> database \<times> response" where
  "book_route k clk session eid db =
     (case session_user session of
        None \<Rightarrow>
          (db, \<lparr>flash = (''Please log in to book this '' @ noun k @ ''.'', ''error''),
                redirect = Login\<rparr>)
      | Some uid \<Rightarrow>
          if \<not> entity_found k eid db
          then (db, \<lparr>flash = (Noun k @ '' not found.'', ''error''), redirect = ListPage k\<rparr>)
          else if already_booked k uid eid db
          then (db, \<lparr>flash = (''You have already booked this '' @ noun k @ ''.'', ''info''),
                     redirect = ViewPage k eid\<rparr>)
          else
            let booking_date = strftime (now clk)
            in case book k uid eid booking_date db of
                 Inr db' \<Rightarrow>
                   (db', \<lparr>flash = (Noun k @ '' booked successfully!'', ''success''),
                          redirect = ViewPage k eid\<rparr>)
               | Inl e \<Rightarrow>
                   (db, \<lparr>flash = (''An unexpected error occurred. Please try again.'',
                                  ''error''),
                         redirect = ViewPage k eid\<rparr>))"

abbreviation book_resource_route :: "clock \<Rightarrow> nat option \<Rightarrow> nat \<Rightarrow> database \<Rightarrow> database \<times> response" where
  "book_resource_route \<equiv> book_route Resource"

abbreviation book_space_route :: "clock \<Rightarrow> nat option \<Rightarrow> nat \<Rightarrow> database \<Rightarrow> database \<times> response" where
  "book_space_route \<equiv> book_route Space"

abbreviation book_event_route :: "clock \<Rightarrow> nat option \<Rightarrow> nat \<Rightarrow> database \<Rightarrow> database \<times> response" where
  "book_event_route \<equiv> book_route Event"

text \<open>
  Binding a Python int as a statement parameter: sqlite3 raises OverflowError for an int
  that does not fit SQLite's signed 64-bit INTEGER. The ids are never negative.
\<close>

definition sqlite_integer :: "nat \<Rightarrow> bool" where
  "sqlite_integer n = (n < 2 ^ 63)"

text \<open>
  unbook_resource, unbook_space, unbook_event:
  \<open>DELETE FROM <kind>_bookings WHERE booking_id = ? AND user_id = ?\<close> inside \<open>try\<close>. When
  the statement runs, the success flash follows whatever it deleted; when binding its
  parameters raises, the \<open>except\<close> clause flashes the error text. The booking id comes
  from the URL (\<open><int:booking_id>\<close>, any non-negative integer).
\<close>

definition unbook_route :: "kind \<Rightarrow> nat option \<Rightarrow> nat \<Rightarrow> database \<Rightarrow> database \<times> response" where
  "unbook_route k session bid db =
     (case session_user session of
        None \<Rightarrow>
          (db, \<lparr>flash = (''Please log in to unbook this '' @ noun k @ ''.'', ''error''),
                redirect = Login\<rparr>)
      | Some uid \<Rightarrow>
          if sqlite_integer bid \<and> sqlite_integer uid
          then
            let t = bookings k db;
                t' = t\<lparr>rows := filter (\<lambda>b. \<not> (booking_id b = bid \<and> user_id b = uid)) (rows t)\<rparr>
            in (set_bookings k t' db,
                \<lparr>flash = (Noun k @ '' booking canceled successfully.'', ''success''),
                 redirect = Profile\<rparr>)
          else
            (db, \<lparr>flash = (''An error occurred while canceling the booking. Please try again.'',
                           ''error''),
                  redirect = Profile\<rparr>))"

abbreviation unbook_resource :: "nat option \<Rightarrow> nat \<Rightarrow> database \<Rightarrow> database \<times> response" where
  "unbook_resource \<equiv> unbook_route Resource"

abbreviation unbook_space :: "nat option \<Rightarrow> nat \<Rightarrow> database \<Rightarrow> database \<times> response" where
  "unbook_space \<equiv> unbook_route Space"

abbreviation unbook_event :: "nat option \<Rightarrow> nat \<Rightarrow> database \<Rightarrow> database \<times> response" where
  "unbook_event \<equiv> unbook_route Event"

section \<open>Notions the properties are stated with\<close>

text \<open>The reminders handed to send_system_message, read off the printed lines.\<close>

fun attempts :: "printed list \<Rightarrow> (nat \<times> string) list" where
  "attempts [] = []"
| "attempts (Sending receiver text # ls) = (receiver, text) # attempts ls"
| "attempts (l # ls) = attempts ls"

text \<open>
  The (receiver, text) pairs one run of app.py's scan passes to send_system_message, in
  the order of its three loops, when \<open>upcoming_date\<close> is tomorrow's date as text.
\<close>

definition reminders_app :: "string \<Rightarrow> database \<Rightarrow> (nat \<times> string) list" where
  "reminders_app upcoming_date db =
     map (\<lambda>(uid, label, d). (uid, reminder_tomorrow Resource label))
         (due_resources_app upcoming_date db) @
     map (\<lambda>(uid, label, d). (uid, reminder_tomorrow Space label))
         (due_spaces_app upcoming_date db) @
     map (\<lambda>(uid, label, d). (uid, reminder_tomorrow Event label))
         (due_events_app upcoming_date db)"

text \<open>The same for database.py's scan, with today's date as text.\<close>

definition reminders_db :: "string \<Rightarrow> database \<Rightarrow> (nat \<times> string) list" where
  "reminders_db current_date db =
     map (\<lambda>(uid, label, d). (uid, reminder_on Resource label d))
         (due_resources_db current_date db) @
     map (\<lambda>(uid, label, d). (uid, reminder_on Space label d))
         (due_spaces_db current_date db) @
     map (\<lambda>(uid, label, d). (uid, reminder_on Event label d))
         (due_events_db current_date db)"

text \<open>What is printed when each of the given reminders is tried and its insert fails.\<close>

definition failed_sends :: "(nat \<times> string) list \<Rightarrow> printed list" where
  "failed_sends rs =
     concat (map (\<lambda>(uid, text).
        [Sending uid text,
         ErrorSending (IntegrityError ''NOT NULL constraint failed: messages.sender_id'')]) rs)"

text \<open>The message rows that \<open>w'\<close> holds beyond those of \<open>w\<close>: the messages created in between.\<close>

definition created_messages :: "world \<Rightarrow> world \<Rightarrow> message list" where
  "created_messages w w' = drop (length (rows (messages (store w)))) (rows (messages (store w')))"

text \<open>At most one booking row for each (user, entity) pair of a table.\<close>

definition unique_bookings :: "booking table \<Rightarrow> bool" where
  "unique_bookings t = distinct (map (\<lambda>b. (user_id b, entity_id b)) (rows t))"

text \<open>\<open>contains_text s pat\<close>: Python's \<open>pat in s\<close>.\<close>

fun contains_text :: "string \<Rightarrow> string \<Rightarrow> bool" where
  "contains_text [] pat = (pat = [])"
| "contains_text (c # cs) pat = (prefix pat (c # cs) \<or> contains_text cs pat)"

text \<open>
  A small database used for the concrete runs below: users 1 (Alice) and 2 (Bob),
  resource 7 "Ladder", space 3 "Hall", event 5 "Cleanup" on 2024-11-10, no bookings, no
  messages, foreign keys off.
\<close>

definition db0 :: database where
  "db0 = \<lparr>users = [\<lparr>ident = 1, user_name = ''Alice'', email = ''alice@example.com''\<rparr>,
                    \<lparr>ident = 2, user_name = ''Bob'', email = ''bob@example.com''\<rparr>],
           resources = [\<lparr>resource_id = 7, resource_owner = 2, title = ''Ladder'',
                          availability = Some ''2024-11-10''\<rparr>],
           spaces = [\<lparr>space_id = 3, space_name = ''Hall'',
                       space_availability = Some ''2024-11-10'', created_by = 2\<rparr>],
           events = [\<lparr>event_id = 5, event_name = ''Cleanup'', event_date = ''2024-11-10'',
                       hosted_by = 2\<rparr>],
           resource_bookings = \<lparr>rows = [], last_rowid = 0\<rparr>,
           space_bookings = \<lparr>rows = [], last_rowid = 0\<rparr>,
           event_bookings = \<lparr>rows = [], last_rowid = 0\<rparr>,
           messages = \<lparr>rows = [], last_rowid = 0\<rparr>,
           foreign_keys = False\<rparr>"

definition clock0 :: clock where
  "clock0 = \<lparr>now = Date 2024 11 9, sql_now = ''2024-11-09 08:00:00''\<rparr>"

text \<open>
  \<open>db1\<close>: user 1 holds booking 1 of resource 7, dated 2024-11-10, and user 2 holds
  booking 1 of event 5.
\<close>

definition db1 :: database where
  "db1 = db0\<lparr>resource_bookings :=
                \<lparr>rows = [\<lparr>booking_id = 1, user_id = 1, entity_id = 7,
                           booking_date = ''2024-11-10''\<rparr>],
                 last_rowid = 1\<rparr>,
              event_bookings :=
                \<lparr>rows = [\<lparr>booking_id = 1, user_id = 2, entity_id = 5,
                           booking_date = ''2024-11-01''\<rparr>],
                 last_rowid = 1\<rparr>\<rparr>"

text \<open>
  \<open>db2\<close>: two resources, and three resource bookings of which user 1 holds the first
  and the third.
\<close>

definition db2 :: database where
  "db2 = db0\<lparr>resources :=
                [\<lparr>resource_id = 7, resource_owner = 2, title = ''Ladder'',
                   availability = Some ''2024-11-10''\<rparr>,
                 \<lparr>resource_id = 8, resource_owner = 2, title = ''Drill'',
                   availability = Some ''2024-11-12''\<rparr>],
              resource_bookings :=
                \<lparr>rows = [\<lparr>booking_id = 1, user_id = 1, entity_id = 8,
                           booking_date = ''2024-11-02''\<rparr>,
                         \<lparr>booking_id = 2, user_id = 2, entity_id = 7,
                           booking_date = ''2024-11-03''\<rparr>,
                         \<lparr>booking_id = 3, user_id = 1, entity_id = 7,
                           booking_date = ''2024-11-04''\<rparr>],
                 last_rowid = 3\<rparr>\<rparr>"

text \<open>
  \<open>db3\<close>, read on 2024-11-09. Resource bookings: user 1 has the ladder (availability
  2025-01-01) dated 2024-11-10, user 2 the drill (availability 2024-11-10) dated
  2024-11-02, user 3 the ladder dated 2024-11-09. Space booking: user 9, who is no longer
  in the users table, has the hall dated 2024-11-10. Event bookings: user 2 has the
  cleanup of 2024-11-10, user 1 the book club of 2024-11-15.
\<close>

definition db3 :: database where
  "db3 = \<lparr>users = [\<lparr>ident = 1, user_name = ''Alice'', email = ''alice@example.com''\<rparr>,
                    \<lparr>ident = 2, user_name = ''Bob'', email = ''bob@example.com''\<rparr>,
                    \<lparr>ident = 3, user_name = ''Carol'', email = ''carol@example.com''\<rparr>],
           resources = [\<lparr>resource_id = 7, resource_owner = 2, title = ''Ladder'',
                          availability = Some ''2025-01-01''\<rparr>,
                        \<lparr>resource_id = 8, resource_owner = 3, title = ''Drill'',
                          availability = Some ''2024-11-10''\<rparr>],
           spaces = [\<lparr>space_id = 3, space_name = ''Hall'',
                       space_availability = Some ''2024-12-24'', created_by = 2\<rparr>],
           events = [\<lparr>event_id = 5, event_name = ''Cleanup'', event_date = ''2024-11-10'',
                       hosted_by = 3\<rparr>,
                     \<lparr>event_id = 6, event_name = ''Book Club'', event_date = ''2024-11-15'',
                       hosted_by = 1\<rparr>],
           resource_bookings =
             \<lparr>rows = [\<lparr>booking_id = 1, user_id = 1, entity_id = 7,
                        booking_date = ''2024-11-10''\<rparr>,
                      \<lparr>booking_id = 2, user_id = 2, entity_id = 8,
                        booking_date = ''2024-11-02''\<rparr>,
                      \<lparr>booking_id = 3, user_id = 3, entity_id = 7,
                        booking_date = ''2024-11-09''\<rparr>],
              last_rowid = 3\<rparr>,
           space_bookings =
             \<lparr>rows = [\<lparr>booking_id = 1, user_id = 9, entity_id = 3,
                        booking_date = ''2024-11-10''\<rparr>],
              last_rowid = 1\<rparr>,
           event_bookings =
             \<lparr>rows = [\<lparr>booking_id = 1, user_id = 2, entity_id = 5,
                        booking_date = ''2024-11-01''\<rparr>,
                      \<lparr>booking_id = 2, user_id = 1, entity_id = 6,
                        booking_date = ''2024-11-03''\<rparr>],
              last_rowid = 2\<rparr>,
           messages = \<lparr>rows = [], last_rowid = 0\<rparr>,
           foreign_keys = False\<rparr>"

definition world3 :: world where
  "world3 = \<lparr>store = db3, stdout = []\<rparr>"

section \<open>Properties of the date arithmetic\<close>

text \<open>
  Adding a day to a date a \<open>datetime\<close> can hold gives such a date again, and fails on
  9999-12-31 only.
\<close>

lemma add_one_day_valid:
  assumes "valid_date d" and "add_one_day d = Inr t"
  shows "valid_date t"
  using assms
  by (auto simp: valid_date_def add_one_day_def days_in_month_def split: if_splits)

lemma add_one_day_overflow:
  assumes "valid_date d"
  shows "add_one_day d = Inl OverflowError \<longleftrightarrow> d = Date 9999 12 31"
  using assms
  by (cases d)
     (auto simp: valid_date_def add_one_day_def days_in_month_def is_leap_def split: if_splits)

section \<open>Properties of the notification emitter\<close>

lemma insert_message_null_sender:
  "insert_message None receiver text ts flag db =
     Inl (IntegrityError ''NOT NULL constraint failed: messages.sender_id'')"
  by (simp add: insert_message_def)

lemma attempts_append: "attempts (xs @ ys) = attempts xs @ attempts ys"
  by (induction xs rule: attempts.induct) simp_all

lemma store_send_system_message: "store (send_system_message clk receiver text w) = store w"
  by (simp add: send_system_message_def print_line_def insert_message_null_sender Let_def)

text \<open>Whether the insert succeeds or fails, the attempt is printed, once.\<close>

lemma attempts_send_system_message:
  "attempts (stdout (send_system_message clk receiver text w)) =
     attempts (stdout w) @ [(receiver, text)]"
  by (simp add: send_system_message_def print_line_def Let_def attempts_append
           split: sum.splits)

text \<open>The messages table does take rows: a user's message is stored.\<close>

lemma send_message_stores:
  "\<not> foreign_keys db \<Longrightarrow>
   \<exists>db'. send_message clk s r text db = Inr db' \<and>
         length (rows (messages db')) = Suc (length (rows (messages db)))"
  by (simp add: send_message_def insert_message_def Let_def)

text \<open>
  C4. The claim: every call of send_system_message with an existing receiver creates
  exactly one message row, with no sender and the system flag set. The code does not do
  that: init_db declares \<open>messages.sender_id\<close> NOT NULL and send_system_message inserts
  NULL there, so the insert raises IntegrityError, the function catches and prints it,
  and the messages table is left as it was, for every receiver and every text.
\<close>

theorem send_system_message_stores_nothing:
  "messages (store (send_system_message clk receiver text w)) = messages (store w) \<and>
   stdout (send_system_message clk receiver text w) =
     stdout w @ [Sending receiver text,
                 ErrorSending (IntegrityError ''NOT NULL constraint failed: messages.sender_id'')]"
  by (simp add: send_system_message_def print_line_def insert_message_null_sender Let_def)

theorem send_system_message_stores_nothing_witness:
  "get_user_by_id 1 db0 \<noteq> None \<and>
   rows (messages (store (send_system_message clock0 1 ''hi'' \<lparr>store = db0, stdout = []\<rparr>))) = []"
  using send_system_message_stores_nothing [of clock0 1 "''hi''" "\<lparr>store = db0, stdout = []\<rparr>"]
  by (simp add: db0_def get_user_by_id_def)

section \<open>What one scan does\<close>

lemma failed_sends_Nil: "failed_sends [] = []"
  by (simp add: failed_sends_def)

lemma failed_sends_Cons:
  "failed_sends ((uid, text) # rs) =
     Sending uid text #
     ErrorSending (IntegrityError ''NOT NULL constraint failed: messages.sender_id'') #
     failed_sends rs"
  by (simp add: failed_sends_def)

lemma failed_sends_append: "failed_sends (xs @ ys) = failed_sends xs @ failed_sends ys"
  by (simp add: failed_sends_def)

lemma attempts_failed_sends: "attempts (failed_sends rs) = rs"
  by (induction rs) (auto simp: failed_sends_Nil failed_sends_Cons)

lemma stdout_send_system_message:
  "stdout (send_system_message clk receiver text w) =
     stdout w @ [Sending receiver text,
       ErrorSending (IntegrityError ''NOT NULL constraint failed: messages.sender_id'')]"
  by (simp add: send_system_message_def print_line_def insert_message_null_sender Let_def)

lemma send_loop:
  "store (foldl (\<lambda>w (uid, label, d). send_system_message clk uid (g label d) w) w xs) = store w \<and>
   stdout (foldl (\<lambda>w (uid, label, d). send_system_message clk uid (g label d) w) w xs) =
     stdout w @ failed_sends (map (\<lambda>(uid, label, d). (uid, g label d)) xs)"
proof (induction xs arbitrary: w)
  case Nil
  show ?case by (simp add: failed_sends_Nil)
next
  case (Cons x xs)
  obtain uid label d where x: "x = (uid, label, d)"
    by (cases x) auto
  show ?case
    unfolding x
    by (simp only: foldl_Cons prod.case list.map Cons.IH store_send_system_message
          stdout_send_system_message failed_sends_Cons append_assoc append_Cons append_Nil
          simp_thms)
qed

lemma check_app_effect:
  assumes "add_one_day (now clk) = Inr tomorrow"
  shows "\<exists>w'. check_upcoming_bookings_app clk w = Inr w' \<and> store w' = store w \<and>
              stdout w' = stdout w @ failed_sends (reminders_app (strftime tomorrow) (store w))"
  using assms
  by (simp add: check_upcoming_bookings_app_def Let_def send_loop
        reminders_app_def failed_sends_append)

lemma check_db_effect:
  "store (check_upcoming_bookings_db clk w) = store w \<and>
   stdout (check_upcoming_bookings_db clk w) =
     stdout w @ failed_sends (reminders_db (strftime (now clk)) (store w))"
  by (simp add: check_upcoming_bookings_db_def Let_def send_loop
        reminders_db_def failed_sends_append)

text \<open>The job of the scheduler: the scan, wrapped in \<open>try\<close>.\<close>

lemma schedule_notifications_effect:
  assumes "add_one_day (now clk) = Inr tomorrow"
  shows "store (schedule_notifications clk w) = store w \<and>
         attempts (stdout (schedule_notifications clk w)) =
           attempts (stdout w) @ reminders_app (strftime tomorrow) (store w)"
proof -
  obtain w' where w': "check_upcoming_bookings_app clk (print_line Running w) = Inr w'"
      "store w' = store (print_line Running w)"
      "stdout w' = stdout (print_line Running w) @
         failed_sends (reminders_app (strftime tomorrow) (store (print_line Running w)))"
    using check_app_effect [OF assms, of "print_line Running w"] by blast
  then show ?thesis
    by (simp add: schedule_notifications_def Let_def print_line_def attempts_append
          attempts_failed_sends)
qed

subsection \<open>Dates and texts of the concrete runs\<close>

lemma strftime_ex: "strftime (Date 2024 11 10) = ''2024-11-10''"
  by code_simp

lemma tomorrow0: "add_one_day (now clock0) = Inr (Date 2024 11 10)"
  by (simp add: clock0_def add_one_day_def days_in_month_def)

lemma strftime_ex0: "strftime (now clock0) = ''2024-11-09''"
  by code_simp

lemma year0: "1000 \<le> year (now clock0)"
  by (simp add: clock0_def)

section \<open>Order of the date texts\<close>

lemma of_char_digit: "(of_char (digit n) :: nat) = 48 + n mod 10"
  by (simp add: digit_def)

lemma digit_eq_iff: "digit a = digit b \<longleftrightarrow> a mod 10 = b mod 10"
proof
  assume "digit a = digit b"
  then have "(of_char (digit a) :: nat) = of_char (digit b)" by simp
  then show "a mod 10 = b mod 10" by (simp add: of_char_digit)
next
  assume "a mod 10 = b mod 10"
  then show "digit a = digit b" by (simp add: digit_def)
qed

lemma text_le_refl: "text_le s s"
  by (induction s) auto

lemma text_le_same_head: "text_le (c # r) (c # r') = text_le r r'"
  by simp

lemma text_le_digit_less:
  "a mod 10 < b mod 10 \<Longrightarrow> text_le (digit a # r) (digit b # r')"
  by (auto simp: digit_eq_iff of_char_digit)

lemma text_le_digit_same:
  "a mod 10 = b mod 10 \<Longrightarrow> text_le (digit a # r) (digit b # r') = text_le r r'"
  by (auto simp: digit_eq_iff)

lemma less_by_digits:
  fixes a b :: nat
  assumes "a < b"
  shows "a div 10 < b div 10 \<or> (a div 10 = b div 10 \<and> a mod 10 < b mod 10)"
proof (cases "a div 10 = b div 10")
  case True
  have "a = 10 * (a div 10) + a mod 10" "b = 10 * (b div 10) + b mod 10" by simp_all
  with True assms have "a mod 10 < b mod 10" by linarith
  with True show ?thesis by simp
next
  case False
  have "a div 10 \<le> b div 10" using assms by (simp add: div_le_mono)
  with False show ?thesis by simp
qed

lemma less_by_hundreds:
  fixes a b :: nat
  assumes "a < b"
  shows "a div 100 < b div 100 \<or> (a div 100 = b div 100 \<and> a mod 100 < b mod 100)"
proof (cases "a div 100 = b div 100")
  case True
  have "a = 100 * (a div 100) + a mod 100" "b = 100 * (b div 100) + b mod 100" by simp_all
  with True assms have "a mod 100 < b mod 100" by linarith
  with True show ?thesis by simp
next
  case False
  have "a div 100 \<le> b div 100" using assms by (simp add: div_le_mono)
  with False show ?thesis by simp
qed

lemma mod_100_digits:
  fixes n :: nat
  shows "n mod 100 div 10 mod 10 = n div 10 mod 10" "n mod 100 mod 10 = n mod 10"
proof -
  have "n mod 100 div 10 = n div 10 mod 10"
    using mod_mult2_eq [of n 10 10] by simp
  then show "n mod 100 div 10 mod 10 = n div 10 mod 10" by simp
  show "n mod 100 mod 10 = n mod 10"
    by (simp add: mod_mod_cancel)
qed

lemma text_le_zfill2_less:
  assumes "a < b" and "b < 100"
  shows "text_le (zfill2 a @ r) (zfill2 b @ r')"
proof -
  have small: "a div 10 mod 10 = a div 10" "b div 10 mod 10 = b div 10"
    using assms by simp_all
  from less_by_digits [OF assms(1)] show ?thesis
  proof
    assume "a div 10 < b div 10"
    then show ?thesis
      by (simp add: zfill2_def text_le_digit_less small del: text_le.simps)
  next
    assume "a div 10 = b div 10 \<and> a mod 10 < b mod 10"
    then show ?thesis
      by (simp add: zfill2_def text_le_digit_same text_le_digit_less del: text_le.simps)
  qed
qed

lemma zfill4_split: "zfill4 n = zfill2 (n div 100) @ zfill2 n"
proof -
  have "n div 100 div 10 = n div 1000"
    using div_mult2_eq [of n 100 10] by simp
  then show ?thesis
    by (simp add: zfill4_def zfill2_def)
qed

lemma zfill2_mod: "zfill2 (n mod 100) = zfill2 n"
  by (simp add: zfill2_def digit_def mod_100_digits)

lemma text_le_zfill4_less:
  assumes "a < b" and "b < 10000"
  shows "text_le (zfill4 a @ r) (zfill4 b @ r')"
proof -
  have b: "b div 100 < 100" using assms(2) by simp
  from less_by_hundreds [OF assms(1)] show ?thesis
  proof
    assume "a div 100 < b div 100"
    then show ?thesis
      using text_le_zfill2_less [of "a div 100" "b div 100", OF _ b]
      by (simp add: zfill4_split)
  next
    assume h: "a div 100 = b div 100 \<and> a mod 100 < b mod 100"
    have "text_le (zfill2 (a mod 100) @ r) (zfill2 (b mod 100) @ r')"
      using h by (intro text_le_zfill2_less) simp_all
    then have "text_le (zfill2 a @ r) (zfill2 b @ r')"
      by (simp add: zfill2_mod)
    then show ?thesis
      using h by (simp add: zfill4_split zfill2_def [of "a div 100"] zfill2_def [of "b div 100"] text_le_digit_same del: text_le.simps)
  qed
qed

lemma strftime_add_one_day:
  assumes "add_one_day d = Inr t"
  shows "text_le (strftime d) (strftime t)"
proof -
  have dim: "days_in_month (year d) (month d) \<le> 31"
    by (simp add: days_in_month_def)
  consider (day) "day d < days_in_month (year d) (month d)" "t = Date (year d) (month d) (day d + 1)"
    | (month) "month d < 12" "t = Date (year d) (month d + 1) 1"
    | (year) "year d < 9999" "t = Date (year d + 1) 1 1"
    using assms by (auto simp: add_one_day_def split: if_splits)
  then show ?thesis
  proof cases
    case day
    have "text_le (zfill2 (day d) @ []) (zfill2 (day d + 1) @ [])"
      using day(1) dim by (intro text_le_zfill2_less) simp_all
    then show ?thesis
      using day(2) by (simp add: strftime_def zfill4_def zfill2_def [of "month d"] text_le_same_head del: text_le.simps)
  next
    case month
    have "text_le (zfill2 (month d) @ CHR ''-'' # zfill2 (day d))
                  (zfill2 (month d + 1) @ CHR ''-'' # zfill2 1)"
      using month(1) by (intro text_le_zfill2_less) simp_all
    then show ?thesis
      using month(2) by (simp add: strftime_def zfill4_def text_le_same_head del: text_le.simps)
  next
    case year
    have "text_le (zfill4 (year d) @ CHR ''-'' # zfill2 (month d) @ CHR ''-'' # zfill2 (day d))
                  (zfill4 (year d + 1) @ CHR ''-'' # zfill2 1 @ CHR ''-'' # zfill2 1)"
      using year(1) by (intro text_le_zfill4_less) simp_all
    then show ?thesis
      using year(2) by (simp add: strftime_def)
  qed
qed

lemma subseq_concat_map:
  "(\<And>x. x \<in> set xs \<Longrightarrow> subseq (f x) (g x)) \<Longrightarrow>
   subseq (concat (map f xs)) (concat (map g xs))"
  by (induction xs) (auto intro: list_emb_append_mono)

lemma receivers_resources:
  assumes "text_le cur up"
  shows "subseq (map fst (due_resources_app up db)) (map fst (due_resources_db cur db))"
  unfolding due_resources_app_def due_resources_db_def map_concat
  using assms
  by (auto intro!: subseq_concat_map simp: map_concat)

lemma receivers_spaces:
  assumes "text_le cur up"
  shows "subseq (map fst (due_spaces_app up db)) (map fst (due_spaces_db cur db))"
  unfolding due_spaces_app_def due_spaces_db_def map_concat
  using assms
  by (auto intro!: subseq_concat_map simp: map_concat)

lemma receivers_events:
  assumes "text_le cur up"
  shows "subseq (map fst (due_events_app up db)) (map fst (due_events_db cur db))"
  unfolding due_events_app_def due_events_db_def map_concat
  using assms
  by (auto intro!: subseq_concat_map simp: map_concat)

lemma receivers_reminders:
  assumes "text_le cur up"
  shows "subseq (map fst (reminders_app up db)) (map fst (reminders_db cur db))"
proof -
  have "map fst (reminders_app up db) =
        map fst (due_resources_app up db) @ map fst (due_spaces_app up db) @
        map fst (due_events_app up db)"
    by (simp add: reminders_app_def case_prod_beta comp_def)
  moreover have "map fst (reminders_db cur db) =
        map fst (due_resources_db cur db) @ map fst (due_spaces_db cur db) @
        map fst (due_events_db cur db)"
    by (simp add: reminders_db_def case_prod_beta comp_def)
  ultimately show ?thesis
    using receivers_resources [OF assms, of db] receivers_spaces [OF assms, of db]
      receivers_events [OF assms, of db]
    by (simp add: list_emb_append_mono)
qed

section \<open>The reminder scan\<close>

subsection \<open>Every due row is attempted\<close>

lemma map_if_list: "map f (if c then xs else ys) = (if c then map f xs else map f ys)"
  by simp

lemma reminders_app_explicit:
  "reminders_app up db =
     [(user_id rb, reminder_tomorrow Resource (title r)).
        rb \<leftarrow> rows (resource_bookings db), r \<leftarrow> resources db,
        entity_id rb = resource_id r, booking_date rb = up] @
     [(user_id sb, reminder_tomorrow Space (space_name s)).
        sb \<leftarrow> rows (space_bookings db), s \<leftarrow> spaces db,
        entity_id sb = space_id s, booking_date sb = up] @
     [(user_id eb, reminder_tomorrow Event (event_name e)).
        eb \<leftarrow> rows (event_bookings db), e \<leftarrow> events db,
        entity_id eb = event_id e, event_date e = up]"
  by (simp add: reminders_app_def due_resources_app_def due_spaces_app_def due_events_app_def
        map_concat comp_def map_if_list cong: if_cong)

lemma reminders_db_explicit:
  "reminders_db cur db =
     [(user_id rb, reminder_on Resource (title r) (booking_date rb)).
        rb \<leftarrow> rows (resource_bookings db), r \<leftarrow> resources db,
        entity_id rb = resource_id r, text_le cur (booking_date rb)] @
     [(user_id sb, reminder_on Space (space_name s) (booking_date sb)).
        sb \<leftarrow> rows (space_bookings db), s \<leftarrow> spaces db,
        entity_id sb = space_id s, text_le cur (booking_date sb)] @
     [(user_id eb, reminder_on Event (event_name e) (event_date e)).
        eb \<leftarrow> rows (event_bookings db), e \<leftarrow> events db,
        entity_id eb = event_id e, text_le cur (event_date e)]"
  by (simp add: reminders_db_def due_resources_db_def due_spaces_db_def due_events_db_def
        map_concat comp_def map_if_list cong: if_cong)

text \<open>
  C6. Within one scan a reminder whose write fails stops nothing. For every clock
  whose tomorrow exists (year 1000 or later, where \<open>%Y\<close> has four digits on every platform),
  the scan of app.py returns normally, and what it hands to send_system_message is, in
  this order, one reminder for every resource booking row whose booking_date is tomorrow,
  one for every space booking row whose booking_date is tomorrow, and one for every
  booking of an event whose date is tomorrow. On standard output each attempt is followed
  by the error line of its own failed insert (the insert fails for every receiver, existing
  or not), and the next attempt is made all the same.
\<close>

theorem scan_completes_despite_failures:
  assumes "add_one_day (now clk) = Inr tomorrow" and "1000 \<le> year (now clk)"
  shows "\<exists>w' new.
           new =
             [(user_id rb, reminder_tomorrow Resource (title r)).
                rb \<leftarrow> rows (resource_bookings (store w)), r \<leftarrow> resources (store w),
                entity_id rb = resource_id r, booking_date rb = strftime tomorrow] @
             [(user_id sb, reminder_tomorrow Space (space_name s)).
                sb \<leftarrow> rows (space_bookings (store w)), s \<leftarrow> spaces (store w),
                entity_id sb = space_id s, booking_date sb = strftime tomorrow] @
             [(user_id eb, reminder_tomorrow Event (event_name e)).
                eb \<leftarrow> rows (event_bookings (store w)), e \<leftarrow> events (store w),
                entity_id eb = event_id e, event_date e = strftime tomorrow] \<and>
           check_upcoming_bookings_app clk w = Inr w' \<and>
           attempts (stdout w') = attempts (stdout w) @ new \<and>
           stdout w' = stdout w @ failed_sends new"
proof -
  obtain w' where w': "check_upcoming_bookings_app clk w = Inr w'"
      "stdout w' = stdout w @ failed_sends (reminders_app (strftime tomorrow) (store w))"
    using check_app_effect [OF assms(1), of w] by blast
  then have "attempts (stdout w') =
      attempts (stdout w) @ reminders_app (strftime tomorrow) (store w)"
    by (simp add: attempts_append attempts_failed_sends)
  with w' show ?thesis
    unfolding reminders_app_explicit by blast
qed

text \<open>
  The run on \<open>db3\<close> at 2024-11-09: three reminders, the second for user 9, who is not in
  the users table.
\<close>

lemma reminders_world3:
  "reminders_app ''2024-11-10'' db3 =
     [(1, reminder_tomorrow Resource ''Ladder''), (9, reminder_tomorrow Space ''Hall''),
      (2, reminder_tomorrow Event ''Cleanup'')]"
  by (simp add: reminders_app_def due_resources_app_def due_spaces_app_def due_events_app_def
        db3_def)

lemma scan_world3:
  "\<exists>w'. check_upcoming_bookings_app clock0 world3 = Inr w' \<and> store w' = db3 \<and>
        stdout w' = failed_sends
          [(1, reminder_tomorrow Resource ''Ladder''), (9, reminder_tomorrow Space ''Hall''),
           (2, reminder_tomorrow Event ''Cleanup'')]"
  using check_app_effect [OF tomorrow0, of world3]
  by (auto simp: world3_def strftime_ex reminders_world3)

theorem scan_completes_despite_failures_witness:
  "add_one_day (now clock0) = Inr (Date 2024 11 10) \<and> 1000 \<le> year (now clock0) \<and>
   get_user_by_id 9 db3 = None \<and>
   (\<exists>w'. check_upcoming_bookings_app clock0 world3 = Inr w' \<and>
         attempts (stdout w') =
           [(1, reminder_tomorrow Resource ''Ladder''), (9, reminder_tomorrow Space ''Hall''),
            (2, reminder_tomorrow Event ''Cleanup'')] \<and>
         stdout w' =
           [Sending 1 (reminder_tomorrow Resource ''Ladder''),
            ErrorSending (IntegrityError ''NOT NULL constraint failed: messages.sender_id''),
            Sending 9 (reminder_tomorrow Space ''Hall''),
            ErrorSending (IntegrityError ''NOT NULL constraint failed: messages.sender_id''),
            Sending 2 (reminder_tomorrow Event ''Cleanup''),
            ErrorSending (IntegrityError ''NOT NULL constraint failed: messages.sender_id'')])"
proof -
  from scan_completes_despite_failures [OF tomorrow0 year0, of world3]
  obtain w' new where n: "new =
             [(user_id rb, reminder_tomorrow Resource (title r)).
                rb \<leftarrow> rows (resource_bookings (store world3)), r \<leftarrow> resources (store world3),
                entity_id rb = resource_id r, booking_date rb = strftime (Date 2024 11 10)] @
             [(user_id sb, reminder_tomorrow Space (space_name s)).
                sb \<leftarrow> rows (space_bookings (store world3)), s \<leftarrow> spaces (store world3),
                entity_id sb = space_id s, booking_date sb = strftime (Date 2024 11 10)] @
             [(user_id eb, reminder_tomorrow Event (event_name e)).
                eb \<leftarrow> rows (event_bookings (store world3)), e \<leftarrow> events (store world3),
                entity_id eb = event_id e, event_date e = strftime (Date 2024 11 10)]"
    and w': "check_upcoming_bookings_app clock0 world3 = Inr w'"
      "attempts (stdout w') = attempts (stdout world3) @ new"
      "stdout w' = stdout world3 @ failed_sends new"
    by blast
  have "new = [(1, reminder_tomorrow Resource ''Ladder''), (9, reminder_tomorrow Space ''Hall''),
            (2, reminder_tomorrow Event ''Cleanup'')]"
    unfolding n by (simp add: world3_def db3_def strftime_ex)
  with w' have "attempts (stdout w') =
           [(1, reminder_tomorrow Resource ''Ladder''), (9, reminder_tomorrow Space ''Hall''),
            (2, reminder_tomorrow Event ''Cleanup'')]"
      "stdout w' =
           [Sending 1 (reminder_tomorrow Resource ''Ladder''),
            ErrorSending (IntegrityError ''NOT NULL constraint failed: messages.sender_id''),
            Sending 9 (reminder_tomorrow Space ''Hall''),
            ErrorSending (IntegrityError ''NOT NULL constraint failed: messages.sender_id''),
            Sending 2 (reminder_tomorrow Event ''Cleanup''),
            ErrorSending (IntegrityError ''NOT NULL constraint failed: messages.sender_id'')]"
    by (simp_all add: world3_def failed_sends_Cons failed_sends_Nil)
  moreover have "get_user_by_id 9 db3 = None"
    by (simp add: get_user_by_id_def db3_def)
  ultimately show ?thesis
    using w'(1) tomorrow0 year0 by blast
qed

subsection \<open>No reminder is stored\<close>

lemma store_schedule_notifications: "store (schedule_notifications clk w) = store w"
proof (cases "add_one_day (now clk)")
  case (Inl e)
  then show ?thesis
    by (simp add: schedule_notifications_def check_upcoming_bookings_app_def print_line_def Let_def)
next
  case (Inr t)
  from check_app_effect [OF Inr, of "print_line Running w"] show ?thesis
    by (auto simp: schedule_notifications_def print_line_def Let_def)
qed

lemma store_scheduler: "store (scheduler ticks w) = store w"
proof -
  have "store (foldl (\<lambda>w clk. schedule_notifications clk w) w ticks) = store w"
    by (induction ticks arbitrary: w) (simp_all add: store_schedule_notifications)
  then show ?thesis by (simp add: scheduler_def)
qed

text \<open>
  C1. At most one reminder message is created for a booking and a governing date, over
  any number of scheduler ticks, and a second scan right after the first creates no second
  message. This holds of the code, and only because no reminder message is created at
  all: every insert of a reminder fails (C4), so any sequence of ticks of the scheduler
  job and a scan of database.py leave the messages table, which is in the database file,
  exactly as it was. The scans keep no marker of what they issued: with the same clock
  (tomorrow exists, year 1000 or later) two scans of app.py in immediate succession both
  return, each hands send_system_message the same reminders, one for every due row, and
  neither creates a message.
\<close>

theorem scheduler_creates_no_message:
  "created_messages w (scheduler ticks w) = [] \<and>
   messages (store (scheduler ticks w)) = messages (store w) \<and>
   (\<forall>uid text. length (filter (\<lambda>m. receiver_id m = uid \<and> content m = text)
                   (created_messages w (scheduler ticks w))) \<le> 1) \<and>
   created_messages w (check_upcoming_bookings_db clk w) = [] \<and>
   (\<forall>tomorrow. add_one_day (now clk) = Inr tomorrow \<longrightarrow> 1000 \<le> year (now clk) \<longrightarrow>
      (\<exists>w1 w2 due.
         due =
           [(user_id rb, reminder_tomorrow Resource (title r)).
              rb \<leftarrow> rows (resource_bookings (store w)), r \<leftarrow> resources (store w),
              entity_id rb = resource_id r, booking_date rb = strftime tomorrow] @
           [(user_id sb, reminder_tomorrow Space (space_name s)).
              sb \<leftarrow> rows (space_bookings (store w)), s \<leftarrow> spaces (store w),
              entity_id sb = space_id s, booking_date sb = strftime tomorrow] @
           [(user_id eb, reminder_tomorrow Event (event_name e)).
              eb \<leftarrow> rows (event_bookings (store w)), e \<leftarrow> events (store w),
              entity_id eb = event_id e, event_date e = strftime tomorrow] \<and>
         check_upcoming_bookings_app clk w = Inr w1 \<and>
         check_upcoming_bookings_app clk w1 = Inr w2 \<and>
         attempts (stdout w1) = attempts (stdout w) @ due \<and>
         attempts (stdout w2) = attempts (stdout w1) @ due \<and>
         created_messages w w1 = [] \<and> created_messages w1 w2 = []))"
proof (intro conjI allI impI)
  show "created_messages w (scheduler ticks w) = []"
    by (simp add: created_messages_def store_scheduler)
  show "messages (store (scheduler ticks w)) = messages (store w)"
    by (simp add: store_scheduler)
  show "length (filter (\<lambda>m. receiver_id m = uid \<and> content m = c)
          (created_messages w (scheduler ticks w))) \<le> 1" for uid c
    by (simp add: created_messages_def store_scheduler)
  show "created_messages w (check_upcoming_bookings_db clk w) = []"
    by (simp add: created_messages_def check_db_effect)
next
  fix tomorrow
  assume t: "add_one_day (now clk) = Inr tomorrow"
  obtain w1 where w1: "check_upcoming_bookings_app clk w = Inr w1" "store w1 = store w"
      "stdout w1 = stdout w @ failed_sends (reminders_app (strftime tomorrow) (store w))"
    using check_app_effect [OF t, of w] by blast
  obtain w2 where w2: "check_upcoming_bookings_app clk w1 = Inr w2" "store w2 = store w1"
      "stdout w2 = stdout w1 @ failed_sends (reminders_app (strftime tomorrow) (store w1))"
    using check_app_effect [OF t, of w1] by blast
  have a1: "attempts (stdout w1) =
      attempts (stdout w) @ reminders_app (strftime tomorrow) (store w)"
    unfolding w1(3) by (simp add: attempts_append attempts_failed_sends)
  have a2: "attempts (stdout w2) =
      attempts (stdout w1) @ reminders_app (strftime tomorrow) (store w)"
    unfolding w2(3) w1(2) by (simp add: attempts_append attempts_failed_sends)
  have c1: "created_messages w w1 = []" and c2: "created_messages w1 w2 = []"
    by (simp_all add: created_messages_def w1(2) w2(2))
  let ?due =
    "[(user_id rb, reminder_tomorrow Resource (title r)).
        rb \<leftarrow> rows (resource_bookings (store w)), r \<leftarrow> resources (store w),
        entity_id rb = resource_id r, booking_date rb = strftime tomorrow] @
     [(user_id sb, reminder_tomorrow Space (space_name s)).
        sb \<leftarrow> rows (space_bookings (store w)), s \<leftarrow> spaces (store w),
        entity_id sb = space_id s, booking_date sb = strftime tomorrow] @
     [(user_id eb, reminder_tomorrow Event (event_name e)).
        eb \<leftarrow> rows (event_bookings (store w)), e \<leftarrow> events (store w),
        entity_id eb = event_id e, event_date e = strftime tomorrow]"
  have a1': "attempts (stdout w1) = attempts (stdout w) @ ?due"
    using a1 unfolding reminders_app_explicit .
  have a2': "attempts (stdout w2) = attempts (stdout w1) @ ?due"
    using a2 unfolding reminders_app_explicit .
  show "\<exists>w1 w2 due.
         due =
           [(user_id rb, reminder_tomorrow Resource (title r)).
              rb \<leftarrow> rows (resource_bookings (store w)), r \<leftarrow> resources (store w),
              entity_id rb = resource_id r, booking_date rb = strftime tomorrow] @
           [(user_id sb, reminder_tomorrow Space (space_name s)).
              sb \<leftarrow> rows (space_bookings (store w)), s \<leftarrow> spaces (store w),
              entity_id sb = space_id s, booking_date sb = strftime tomorrow] @
           [(user_id eb, reminder_tomorrow Event (event_name e)).
              eb \<leftarrow> rows (event_bookings (store w)), e \<leftarrow> events (store w),
              entity_id eb = event_id e, event_date e = strftime tomorrow] \<and>
         check_upcoming_bookings_app clk w = Inr w1 \<and>
         check_upcoming_bookings_app clk w1 = Inr w2 \<and>
         attempts (stdout w1) = attempts (stdout w) @ due \<and>
         attempts (stdout w2) = attempts (stdout w1) @ due \<and>
         created_messages w w1 = [] \<and> created_messages w1 w2 = []"
    by (intro exI conjI, rule refl, rule w1(1), rule w2(1), rule a1', rule a2',
        rule c1, rule c2)
qed

theorem scheduler_creates_no_message_witness:
  "add_one_day (now clock0) = Inr (Date 2024 11 10) \<and> 1000 \<le> year (now clock0) \<and>
   rows (messages (store world3)) = [] \<and>
   rows (messages (store (scheduler [clock0, clock0] world3))) = [] \<and>
   (\<exists>w1 w2. check_upcoming_bookings_app clock0 world3 = Inr w1 \<and>
      check_upcoming_bookings_app clock0 w1 = Inr w2 \<and>
      map fst (attempts (stdout w1)) = [1, 9, 2] \<and>
      map fst (attempts (stdout w2)) = [1, 9, 2, 1, 9, 2] \<and>
      rows (messages (store w1)) = [] \<and> rows (messages (store w2)) = [])"
proof -
  have m: "rows (messages (store world3)) = []" and a0: "attempts (stdout world3) = []"
    by (simp_all add: world3_def db3_def)
  note c = scheduler_creates_no_message [of world3 "[clock0, clock0]" clock0]
  from c have s: "messages (store (scheduler [clock0, clock0] world3)) = messages (store world3)"
    by (elim conjE)
  from c tomorrow0 year0 obtain w1 w2 due where
      d: "due =
           [(user_id rb, reminder_tomorrow Resource (title r)).
              rb \<leftarrow> rows (resource_bookings (store world3)), r \<leftarrow> resources (store world3),
              entity_id rb = resource_id r, booking_date rb = strftime (Date 2024 11 10)] @
           [(user_id sb, reminder_tomorrow Space (space_name s)).
              sb \<leftarrow> rows (space_bookings (store world3)), s \<leftarrow> spaces (store world3),
              entity_id sb = space_id s, booking_date sb = strftime (Date 2024 11 10)] @
           [(user_id eb, reminder_tomorrow Event (event_name e)).
              eb \<leftarrow> rows (event_bookings (store world3)), e \<leftarrow> events (store world3),
              entity_id eb = event_id e, event_date e = strftime (Date 2024 11 10)]"
    and r: "check_upcoming_bookings_app clock0 world3 = Inr w1"
         "check_upcoming_bookings_app clock0 w1 = Inr w2"
         "attempts (stdout w1) = attempts (stdout world3) @ due"
         "attempts (stdout w2) = attempts (stdout w1) @ due"
         "created_messages world3 w1 = []" "created_messages w1 w2 = []"
    by blast
  have "map fst due = [1, 9, 2]"
    unfolding d by (simp add: world3_def db3_def strftime_ex)
  then have f: "map fst (attempts (stdout w1)) = [1, 9, 2]"
      "map fst (attempts (stdout w2)) = [1, 9, 2, 1, 9, 2]"
    using r(3,4) a0 by simp_all
  have m1: "rows (messages (store w1)) = []"
    using r(5) m by (simp add: created_messages_def)
  then have m2: "rows (messages (store w2)) = []"
    using r(6) by (simp add: created_messages_def)
  have ms: "rows (messages (store (scheduler [clock0, clock0] world3))) = []"
    using s m by simp
  from tomorrow0 year0 m ms r(1,2) f m1 m2 show ?thesis
    by (intro exI conjI)
qed

subsection \<open>Receiver and text of a reminder\<close>

lemma reminders_app_iff:
  "(uid, text) \<in> set (reminders_app up db) \<longleftrightarrow>
     (\<exists>rb r. rb \<in> set (rows (resource_bookings db)) \<and> r \<in> set (resources db) \<and>
        entity_id rb = resource_id r \<and> booking_date rb = up \<and> uid = user_id rb \<and>
        text = ''Reminder: Your resource booking '' @ quoted (title r) @
               '' is scheduled for tomorrow.'') \<or>
     (\<exists>sb s. sb \<in> set (rows (space_bookings db)) \<and> s \<in> set (spaces db) \<and>
        entity_id sb = space_id s \<and> booking_date sb = up \<and> uid = user_id sb \<and>
        text = ''Reminder: Your space booking '' @ quoted (space_name s) @
               '' is scheduled for tomorrow.'') \<or>
     (\<exists>eb e. eb \<in> set (rows (event_bookings db)) \<and> e \<in> set (events db) \<and>
        entity_id eb = event_id e \<and> event_date e = up \<and> uid = user_id eb \<and>
        text = ''Reminder: Your event '' @ quoted (event_name e) @
               '' is scheduled for tomorrow.'')"
  unfolding reminders_app_explicit
  by (auto simp: reminder_tomorrow_def split: if_splits)

lemma reminders_db_iff:
  "(uid, text) \<in> set (reminders_db cur db) \<longleftrightarrow>
     (\<exists>rb r. rb \<in> set (rows (resource_bookings db)) \<and> r \<in> set (resources db) \<and>
        entity_id rb = resource_id r \<and> text_le cur (booking_date rb) \<and> uid = user_id rb \<and>
        text = ''Reminder: Your resource booking '' @ quoted (title r) @
               '' is scheduled for '' @ booking_date rb @ ''.'') \<or>
     (\<exists>sb s. sb \<in> set (rows (space_bookings db)) \<and> s \<in> set (spaces db) \<and>
        entity_id sb = space_id s \<and> text_le cur (booking_date sb) \<and> uid = user_id sb \<and>
        text = ''Reminder: Your space booking '' @ quoted (space_name s) @
               '' is scheduled for '' @ booking_date sb @ ''.'') \<or>
     (\<exists>eb e. eb \<in> set (rows (event_bookings db)) \<and> e \<in> set (events db) \<and>
        entity_id eb = event_id e \<and> text_le cur (event_date e) \<and> uid = user_id eb \<and>
        text = ''Reminder: Your event '' @ quoted (event_name e) @
               '' is scheduled for '' @ event_date e @ ''.'')"
  unfolding reminders_db_explicit
  by (auto simp: reminder_on_def split: if_splits)

text \<open>
  C7 (as amended). The claim: every reminder is addressed to the booking's user, names
  the entity by its kind's label and states the governing date. Receiver and label are as
  claimed; the date is not in the text of the scan that runs. For every clock whose
  tomorrow exists (year 1000 or later): the scan of app.py hands send_system_message the
  pair (receiver, text) exactly when a resource or space booking row whose booking_date is
  tomorrow, or a booking row of an event whose date is tomorrow, has that user, and the
  text is "Reminder: Your resource booking '<title>' is scheduled for tomorrow." (for a
  space "space booking '<name>'", for an event "event '<name>'"). The scan of database.py,
  which app.py's definition shadows, takes the rows dated today or later and does put the
  date in the text: "... is scheduled for <date>.".
\<close>

theorem reminder_receiver_and_text:
  assumes "add_one_day (now clk) = Inr tomorrow" and "1000 \<le> year (now clk)"
  shows "(\<exists>w' new. check_upcoming_bookings_app clk w = Inr w' \<and>
            attempts (stdout w') = attempts (stdout w) @ new \<and>
            (\<forall>uid text. (uid, text) \<in> set new \<longleftrightarrow>
               (\<exists>rb r. rb \<in> set (rows (resource_bookings (store w))) \<and>
                  r \<in> set (resources (store w)) \<and> entity_id rb = resource_id r \<and>
                  booking_date rb = strftime tomorrow \<and> uid = user_id rb \<and>
                  text = ''Reminder: Your resource booking '' @ quoted (title r) @
                         '' is scheduled for tomorrow.'') \<or>
               (\<exists>sb s. sb \<in> set (rows (space_bookings (store w))) \<and>
                  s \<in> set (spaces (store w)) \<and> entity_id sb = space_id s \<and>
                  booking_date sb = strftime tomorrow \<and> uid = user_id sb \<and>
                  text = ''Reminder: Your space booking '' @ quoted (space_name s) @
                         '' is scheduled for tomorrow.'') \<or>
               (\<exists>eb e. eb \<in> set (rows (event_bookings (store w))) \<and>
                  e \<in> set (events (store w)) \<and> entity_id eb = event_id e \<and>
                  event_date e = strftime tomorrow \<and> uid = user_id eb \<and>
                  text = ''Reminder: Your event '' @ quoted (event_name e) @
                         '' is scheduled for tomorrow.''))) \<and>
         (\<exists>new. attempts (stdout (check_upcoming_bookings_db clk w)) = attempts (stdout w) @ new \<and>
            (\<forall>uid text. (uid, text) \<in> set new \<longleftrightarrow>
               (\<exists>rb r. rb \<in> set (rows (resource_bookings (store w))) \<and>
                  r \<in> set (resources (store w)) \<and> entity_id rb = resource_id r \<and>
                  text_le (strftime (now clk)) (booking_date rb) \<and> uid = user_id rb \<and>
                  text = ''Reminder: Your resource booking '' @ quoted (title r) @
                         '' is scheduled for '' @ booking_date rb @ ''.'') \<or>
               (\<exists>sb s. sb \<in> set (rows (space_bookings (store w))) \<and>
                  s \<in> set (spaces (store w)) \<and> entity_id sb = space_id s \<and>
                  text_le (strftime (now clk)) (booking_date sb) \<and> uid = user_id sb \<and>
                  text = ''Reminder: Your space booking '' @ quoted (space_name s) @
                         '' is scheduled for '' @ booking_date sb @ ''.'') \<or>
               (\<exists>eb e. eb \<in> set (rows (event_bookings (store w))) \<and>
                  e \<in> set (events (store w)) \<and> entity_id eb = event_id e \<and>
                  text_le (strftime (now clk)) (event_date e) \<and> uid = user_id eb \<and>
                  text = ''Reminder: Your event '' @ quoted (event_name e) @
                         '' is scheduled for '' @ event_date e @ ''.'')))"
proof (rule conjI)
  obtain w' where w': "check_upcoming_bookings_app clk w = Inr w'"
      "stdout w' = stdout w @ failed_sends (reminders_app (strftime tomorrow) (store w))"
    using check_app_effect [OF assms(1), of w] by blast
  then have "attempts (stdout w') =
      attempts (stdout w) @ reminders_app (strftime tomorrow) (store w)"
    by (simp add: attempts_append attempts_failed_sends)
  with w'(1) show "\<exists>w' new. check_upcoming_bookings_app clk w = Inr w' \<and>
            attempts (stdout w') = attempts (stdout w) @ new \<and>
            (\<forall>uid text. (uid, text) \<in> set new \<longleftrightarrow>
               (\<exists>rb r. rb \<in> set (rows (resource_bookings (store w))) \<and>
                  r \<in> set (resources (store w)) \<and> entity_id rb = resource_id r \<and>
                  booking_date rb = strftime tomorrow \<and> uid = user_id rb \<and>
                  text = ''Reminder: Your resource booking '' @ quoted (title r) @
                         '' is scheduled for tomorrow.'') \<or>
               (\<exists>sb s. sb \<in> set (rows (space_bookings (store w))) \<and>
                  s \<in> set (spaces (store w)) \<and> entity_id sb = space_id s \<and>
                  booking_date sb = strftime tomorrow \<and> uid = user_id sb \<and>
                  text = ''Reminder: Your space booking '' @ quoted (space_name s) @
                         '' is scheduled for tomorrow.'') \<or>
               (\<exists>eb e. eb \<in> set (rows (event_bookings (store w))) \<and>
                  e \<in> set (events (store w)) \<and> entity_id eb = event_id e \<and>
                  event_date e = strftime tomorrow \<and> uid = user_id eb \<and>
                  text = ''Reminder: Your event '' @ quoted (event_name e) @
                         '' is scheduled for tomorrow.''))"
    by (intro exI conjI allI) (assumption | rule reminders_app_iff)+
next
  have "attempts (stdout (check_upcoming_bookings_db clk w)) =
      attempts (stdout w) @ reminders_db (strftime (now clk)) (store w)"
    by (simp add: check_db_effect attempts_append attempts_failed_sends)
  then show "\<exists>new. attempts (stdout (check_upcoming_bookings_db clk w)) = attempts (stdout w) @ new \<and>
            (\<forall>uid text. (uid, text) \<in> set new \<longleftrightarrow>
               (\<exists>rb r. rb \<in> set (rows (resource_bookings (store w))) \<and>
                  r \<in> set (resources (store w)) \<and> entity_id rb = resource_id r \<and>
                  text_le (strftime (now clk)) (booking_date rb) \<and> uid = user_id rb \<and>
                  text = ''Reminder: Your resource booking '' @ quoted (title r) @
                         '' is scheduled for '' @ booking_date rb @ ''.'') \<or>
               (\<exists>sb s. sb \<in> set (rows (space_bookings (store w))) \<and>
                  s \<in> set (spaces (store w)) \<and> entity_id sb = space_id s \<and>
                  text_le (strftime (now clk)) (booking_date sb) \<and> uid = user_id sb \<and>
                  text = ''Reminder: Your space booking '' @ quoted (space_name s) @
                         '' is scheduled for '' @ booking_date sb @ ''.'') \<or>
               (\<exists>eb e. eb \<in> set (rows (event_bookings (store w))) \<and>
                  e \<in> set (events (store w)) \<and> entity_id eb = event_id e \<and>
                  text_le (strftime (now clk)) (event_date e) \<and> uid = user_id eb \<and>
                  text = ''Reminder: Your event '' @ quoted (event_name e) @
                         '' is scheduled for '' @ event_date e @ ''.''))"
    by (intro exI conjI allI) (assumption | rule reminders_db_iff)+
qed

lemma reminder_texts_world3:
  "reminder_tomorrow Resource ''Ladder'' =
     ''Reminder: Your resource booking 'Ladder' is scheduled for tomorrow.''"
  "reminder_tomorrow Space ''Hall'' = ''Reminder: Your space booking 'Hall' is scheduled for tomorrow.''"
  "reminder_tomorrow Event ''Cleanup'' = ''Reminder: Your event 'Cleanup' is scheduled for tomorrow.''"
  by (simp_all add: reminder_tomorrow_def quoted_def)

lemma app_attempts_world3:
  "\<exists>w'. check_upcoming_bookings_app clock0 world3 = Inr w' \<and>
        attempts (stdout w') =
          [(1, ''Reminder: Your resource booking 'Ladder' is scheduled for tomorrow.''),
           (9, ''Reminder: Your space booking 'Hall' is scheduled for tomorrow.''),
           (2, ''Reminder: Your event 'Cleanup' is scheduled for tomorrow.'')]"
proof -
  obtain w' where w': "check_upcoming_bookings_app clock0 world3 = Inr w'"
      "stdout w' = failed_sends
          [(1, reminder_tomorrow Resource ''Ladder''), (9, reminder_tomorrow Space ''Hall''),
           (2, reminder_tomorrow Event ''Cleanup'')]"
    using scan_world3 by blast
  have "attempts (stdout w') =
          [(1, reminder_tomorrow Resource ''Ladder''), (9, reminder_tomorrow Space ''Hall''),
           (2, reminder_tomorrow Event ''Cleanup'')]"
    unfolding w'(2) by (rule attempts_failed_sends)
  with w'(1) show ?thesis
    unfolding reminder_texts_world3 by (intro exI conjI)
qed

lemma reminders_db_world3:
  "reminders_db ''2024-11-09'' db3 =
     [(1, reminder_on Resource ''Ladder'' ''2024-11-10''),
      (3, reminder_on Resource ''Ladder'' ''2024-11-09''),
      (9, reminder_on Space ''Hall'' ''2024-11-10''),
      (2, reminder_on Event ''Cleanup'' ''2024-11-10''),
      (1, reminder_on Event ''Book Club'' ''2024-11-15'')]"
  by (simp add: reminders_db_def due_resources_db_def due_spaces_db_def due_events_db_def
        db3_def)

lemma db_attempts_world3:
  "attempts (stdout (check_upcoming_bookings_db clock0 world3)) =
     [(1, ''Reminder: Your resource booking 'Ladder' is scheduled for 2024-11-10.''),
      (3, ''Reminder: Your resource booking 'Ladder' is scheduled for 2024-11-09.''),
      (9, ''Reminder: Your space booking 'Hall' is scheduled for 2024-11-10.''),
      (2, ''Reminder: Your event 'Cleanup' is scheduled for 2024-11-10.''),
      (1, ''Reminder: Your event 'Book Club' is scheduled for 2024-11-15.'')]"
  by (simp add: check_db_effect attempts_append attempts_failed_sends strftime_ex0
        reminders_db_world3 world3_def reminder_on_def quoted_def)

text \<open>
  The scenario of the claim: on 2024-11-09 user 1 holds a booking of resource 7 "Ladder"
  dated 2024-11-10. The reminder names the ladder and says "tomorrow"; the text
  "2024-11-10" is not in it.
\<close>

theorem reminder_says_tomorrow_not_the_date:
  "\<exists>w'. check_upcoming_bookings_app clock0 world3 = Inr w' \<and>
        attempts (stdout w') =
          [(1, ''Reminder: Your resource booking 'Ladder' is scheduled for tomorrow.''),
           (9, ''Reminder: Your space booking 'Hall' is scheduled for tomorrow.''),
           (2, ''Reminder: Your event 'Cleanup' is scheduled for tomorrow.'')] \<and>
        \<not> contains_text ''Reminder: Your resource booking 'Ladder' is scheduled for tomorrow.''
              ''2024-11-10''"
proof -
  have "\<not> contains_text ''Reminder: Your resource booking 'Ladder' is scheduled for tomorrow.''
              ''2024-11-10''"
    by simp
  moreover obtain w' where "check_upcoming_bookings_app clock0 world3 = Inr w'"
      "attempts (stdout w') =
          [(1, ''Reminder: Your resource booking 'Ladder' is scheduled for tomorrow.''),
           (9, ''Reminder: Your space booking 'Hall' is scheduled for tomorrow.''),
           (2, ''Reminder: Your event 'Cleanup' is scheduled for tomorrow.'')]"
    using app_attempts_world3 by (elim exE conjE)
  ultimately show ?thesis by (intro exI conjI)
qed

theorem reminder_receiver_and_text_witness:
  "add_one_day (now clock0) = Inr (Date 2024 11 10) \<and> 1000 \<le> year (now clock0) \<and>
   (\<exists>w'. check_upcoming_bookings_app clock0 world3 = Inr w' \<and>
      (9, ''Reminder: Your space booking 'Hall' is scheduled for tomorrow.'')
         \<in> set (attempts (stdout w')) \<and>
      (3, ''Reminder: Your resource booking 'Ladder' is scheduled for tomorrow.'')
         \<notin> set (attempts (stdout w'))) \<and>
   (3, ''Reminder: Your resource booking 'Ladder' is scheduled for 2024-11-09.'')
      \<in> set (attempts (stdout (check_upcoming_bookings_db clock0 world3)))"
proof -
  have a0: "attempts (stdout world3) = []" by (simp add: world3_def)
  from reminder_receiver_and_text [OF tomorrow0 year0, of world3]
  obtain w' new where w': "check_upcoming_bookings_app clock0 world3 = Inr w'"
      "attempts (stdout w') = attempts (stdout world3) @ new"
    by (elim exE conjE)
  obtain w1 where w1: "check_upcoming_bookings_app clock0 world3 = Inr w1"
      "attempts (stdout w1) =
          [(1, ''Reminder: Your resource booking 'Ladder' is scheduled for tomorrow.''),
           (9, ''Reminder: Your space booking 'Hall' is scheduled for tomorrow.''),
           (2, ''Reminder: Your event 'Cleanup' is scheduled for tomorrow.'')]"
    using app_attempts_world3 by (elim exE conjE)
  from w'(1) w1(1) have "w' = w1" by simp
  then have "(9, ''Reminder: Your space booking 'Hall' is scheduled for tomorrow.'')
         \<in> set (attempts (stdout w'))"
      "(3, ''Reminder: Your resource booking 'Ladder' is scheduled for tomorrow.'')
         \<notin> set (attempts (stdout w'))"
    using w1(2) by simp_all
  moreover have "(3, ''Reminder: Your resource booking 'Ladder' is scheduled for 2024-11-09.'')
      \<in> set (attempts (stdout (check_upcoming_bookings_db clock0 world3)))"
    unfolding db_attempts_world3 by simp
  ultimately show ?thesis
    using w'(1) tomorrow0 year0 by (intro exI conjI)
qed

subsection \<open>The date that decides\<close>

lemma receivers_app_explicit:
  "map fst (reminders_app up db) =
     [user_id rb. rb \<leftarrow> rows (resource_bookings db), r \<leftarrow> resources db,
                  entity_id rb = resource_id r, booking_date rb = up] @
     [user_id sb. sb \<leftarrow> rows (space_bookings db), s \<leftarrow> spaces db,
                  entity_id sb = space_id s, booking_date sb = up] @
     [user_id eb. eb \<leftarrow> rows (event_bookings db), e \<leftarrow> events db,
                  entity_id eb = event_id e, event_date e = up]"
  unfolding reminders_app_explicit
  by (simp add: map_concat comp_def map_if_list cong: if_cong)

lemma concat_map_edit:
  "(\<And>x. x \<in> set xs \<Longrightarrow> f (g x) = f x) \<Longrightarrow> concat (map f (map g xs)) = concat (map f xs)"
  by (induction xs) auto

lemma receivers_app_update_resource:
  "map fst (reminders_app up (update_resource rid ttl de ca av db)) = map fst (reminders_app up db)"
  unfolding receivers_app_explicit
  by (auto simp: update_resource_def intro!: arg_cong [where f = concat] concat_map_edit)

lemma receivers_app_update_space:
  "map fst (reminders_app up (update_space sid nm av db)) = map fst (reminders_app up db)"
  unfolding receivers_app_explicit
  by (auto simp: update_space_def intro!: arg_cong [where f = concat] concat_map_edit)

text \<open>
  C3 (as amended). The claim: for a resource or space booking the scan decides by the
  entity's current availability, never by the date in the booking row. It is the other
  way round. For every clock whose tomorrow exists (year 1000 or later), the scan of
  app.py reminds, in this order, the users of exactly the resource booking rows whose
  booking_date is tomorrow, of the space booking rows whose booking_date is tomorrow, and
  of the booking rows of the events whose current date is tomorrow. The availability of a
  resource or space is not read: after update_resource or update_space with any values,
  the scan reminds the same users in the same order.
\<close>

theorem governing_date_of_scan:
  assumes "add_one_day (now clk) = Inr tomorrow" and "1000 \<le> year (now clk)"
  shows "\<exists>w' new. check_upcoming_bookings_app clk w = Inr w' \<and>
           attempts (stdout w') = attempts (stdout w) @ new \<and>
           map fst new =
             [user_id rb. rb \<leftarrow> rows (resource_bookings (store w)), r \<leftarrow> resources (store w),
                          entity_id rb = resource_id r, booking_date rb = strftime tomorrow] @
             [user_id sb. sb \<leftarrow> rows (space_bookings (store w)), s \<leftarrow> spaces (store w),
                          entity_id sb = space_id s, booking_date sb = strftime tomorrow] @
             [user_id eb. eb \<leftarrow> rows (event_bookings (store w)), e \<leftarrow> events (store w),
                          entity_id eb = event_id e, event_date e = strftime tomorrow] \<and>
           (\<exists>w2 new2. check_upcoming_bookings_app clk
                         (w\<lparr>store := update_resource rid ttl de ca av (store w)\<rparr>) = Inr w2 \<and>
                       attempts (stdout w2) = attempts (stdout w) @ new2 \<and>
                       map fst new2 = map fst new) \<and>
           (\<exists>w3 new3. check_upcoming_bookings_app clk
                         (w\<lparr>store := update_space sid nm av' (store w)\<rparr>) = Inr w3 \<and>
                       attempts (stdout w3) = attempts (stdout w) @ new3 \<and>
                       map fst new3 = map fst new)"
proof -
  have scan: "\<exists>v. check_upcoming_bookings_app clk u = Inr v \<and>
      attempts (stdout v) = attempts (stdout u) @ reminders_app (strftime tomorrow) (store u)" for u
    using check_app_effect [OF assms(1), of u]
    by (auto simp: attempts_append attempts_failed_sends)
  obtain w' where w': "check_upcoming_bookings_app clk w = Inr w'"
      "attempts (stdout w') = attempts (stdout w) @ reminders_app (strftime tomorrow) (store w)"
    using scan [of w] by (elim exE conjE)
  obtain w2 where w2: "check_upcoming_bookings_app clk
        (w\<lparr>store := update_resource rid ttl de ca av (store w)\<rparr>) = Inr w2"
      "attempts (stdout w2) = attempts (stdout w) @
         reminders_app (strftime tomorrow) (update_resource rid ttl de ca av (store w))"
    using scan [of "w\<lparr>store := update_resource rid ttl de ca av (store w)\<rparr>"] by auto
  obtain w3 where w3: "check_upcoming_bookings_app clk
        (w\<lparr>store := update_space sid nm av' (store w)\<rparr>) = Inr w3"
      "attempts (stdout w3) = attempts (stdout w) @
         reminders_app (strftime tomorrow) (update_space sid nm av' (store w))"
    using scan [of "w\<lparr>store := update_space sid nm av' (store w)\<rparr>"] by auto
  show ?thesis
    by (intro exI conjI)
       (rule w'(1), rule w'(2), rule receivers_app_explicit,
        rule w2(1), rule w2(2), rule receivers_app_update_resource,
        rule w3(1), rule w3(2), rule receivers_app_update_space)
qed

text \<open>
  On 2024-11-09: the ladder's availability is 2025-01-01 and user 1's booking of it is
  dated 2024-11-10; the drill's availability is 2024-11-10 and user 2's booking of it is
  dated 2024-11-02. The scan reminds user 1 of the ladder and nobody of the drill.
\<close>

theorem reminder_follows_booking_date:
  "map (\<lambda>r. (resource_id r, title r, availability r)) (resources db3) =
     [(7, ''Ladder'', Some ''2025-01-01''), (8, ''Drill'', Some ''2024-11-10'')] \<and>
   map (\<lambda>b. (user_id b, entity_id b, booking_date b)) (rows (resource_bookings db3)) =
     [(1, 7, ''2024-11-10''), (2, 8, ''2024-11-02''), (3, 7, ''2024-11-09'')] \<and>
   strftime (now clock0) = ''2024-11-09'' \<and>
   (\<exists>w'. check_upcoming_bookings_app clock0 world3 = Inr w' \<and>
      attempts (stdout w') =
        [(1, ''Reminder: Your resource booking 'Ladder' is scheduled for tomorrow.''),
         (9, ''Reminder: Your space booking 'Hall' is scheduled for tomorrow.''),
         (2, ''Reminder: Your event 'Cleanup' is scheduled for tomorrow.'')])"
proof -
  have "map (\<lambda>r. (resource_id r, title r, availability r)) (resources db3) =
     [(7, ''Ladder'', Some ''2025-01-01''), (8, ''Drill'', Some ''2024-11-10'')]"
    "map (\<lambda>b. (user_id b, entity_id b, booking_date b)) (rows (resource_bookings db3)) =
     [(1, 7, ''2024-11-10''), (2, 8, ''2024-11-02''), (3, 7, ''2024-11-09'')]"
    by (simp_all add: db3_def)
  with strftime_ex0 app_attempts_world3 show ?thesis
    by (intro conjI)
qed

theorem governing_date_of_scan_witness:
  "add_one_day (now clock0) = Inr (Date 2024 11 10) \<and> 1000 \<le> year (now clock0) \<and>
   (\<exists>w' w2 w3.
      check_upcoming_bookings_app clock0 world3 = Inr w' \<and>
      map fst (attempts (stdout w')) = [1, 9, 2] \<and>
      check_upcoming_bookings_app clock0
        (world3\<lparr>store := update_resource 7 ''Long ladder'' ''Aluminium'' ''Tools'' ''2024-11-12'' db3\<rparr>)
        = Inr w2 \<and>
      map fst (attempts (stdout w2)) = [1, 9, 2] \<and>
      check_upcoming_bookings_app clock0
        (world3\<lparr>store := update_space 3 ''Hall'' ''2024-11-10'' db3\<rparr>) = Inr w3 \<and>
      map fst (attempts (stdout w3)) = [1, 9, 2])"
proof -
  have s: "store world3 = db3" "attempts (stdout world3) = []"
    by (simp_all add: world3_def)
  from governing_date_of_scan [OF tomorrow0 year0, of world3 7 "''Long ladder''" "''Aluminium''" "''Tools''"
      "''2024-11-12''" 3 "''Hall''" "''2024-11-10''"]
  obtain w' new w2 new2 w3 new3 where
      a: "check_upcoming_bookings_app clock0 world3 = Inr w'"
         "attempts (stdout w') = attempts (stdout world3) @ new"
         "map fst new =
             [user_id rb. rb \<leftarrow> rows (resource_bookings (store world3)),
                          r \<leftarrow> resources (store world3),
                          entity_id rb = resource_id r,
                          booking_date rb = strftime (Date 2024 11 10)] @
             [user_id sb. sb \<leftarrow> rows (space_bookings (store world3)),
                          s \<leftarrow> spaces (store world3),
                          entity_id sb = space_id s,
                          booking_date sb = strftime (Date 2024 11 10)] @
             [user_id eb. eb \<leftarrow> rows (event_bookings (store world3)),
                          e \<leftarrow> events (store world3),
                          entity_id eb = event_id e, event_date e = strftime (Date 2024 11 10)]"
    and b: "check_upcoming_bookings_app clock0
              (world3\<lparr>store := update_resource 7 ''Long ladder'' ''Aluminium'' ''Tools'' ''2024-11-12''
                 (store world3)\<rparr>) = Inr w2"
           "attempts (stdout w2) = attempts (stdout world3) @ new2" "map fst new2 = map fst new"
    and c: "check_upcoming_bookings_app clock0
              (world3\<lparr>store := update_space 3 ''Hall'' ''2024-11-10'' (store world3)\<rparr>) = Inr w3"
           "attempts (stdout w3) = attempts (stdout world3) @ new3" "map fst new3 = map fst new"
    by (elim exE conjE)
  have n: "map fst new = [1, 9, 2]"
    unfolding a(3) by (simp add: world3_def db3_def strftime_ex)
  have "map fst (attempts (stdout w')) = [1, 9, 2]"
       "map fst (attempts (stdout w2)) = [1, 9, 2]"
       "map fst (attempts (stdout w3)) = [1, 9, 2]"
    using a(2) b(2,3) c(2,3) n s(2) by simp_all
  with a(1) b(1) c(1) tomorrow0 year0 show ?thesis
    unfolding s(1) by (intro exI conjI)
qed

subsection \<open>The two scans compared\<close>

lemma filter_if_list: "filter P (if c then xs else ys) = (if c then filter P xs else filter P ys)"
  by simp

lemma app_rows_of_db_rows:
  assumes "text_le cur up"
  shows "map (\<lambda>(uid, k, label, d). (uid, g k label))
           (filter (\<lambda>(uid, k, label, d). d = up)
              (concat (map (\<lambda>b. concat (map (\<lambda>e.
                 if J b e then if text_le cur (D b e) then [(U b, K, N e, D b e)] else [] else [])
                 es)) bs))) =
         concat (map (\<lambda>b. concat (map (\<lambda>e.
                 if J b e then if D b e = up then [(U b, g K (N e))] else [] else [])
                 es)) bs)"
proof -
  have inner: "map (\<lambda>(uid, k, label, d). (uid, g k label))
           (filter (\<lambda>(uid, k, label, d). d = up)
              (concat (map (\<lambda>e.
                 if J b e then if text_le cur (D b e) then [(U b, K, N e, D b e)] else [] else [])
                 es))) =
         concat (map (\<lambda>e.
                 if J b e then if D b e = up then [(U b, g K (N e))] else [] else [])
                 es)" for b
    using assms by (induction es) auto
  show ?thesis
    by (induction bs) (simp_all add: inner)
qed

lemma db_rows_explicit:
  "map (\<lambda>(uid, k, label, d). (uid, reminder_on k label d))
     ([(user_id rb, Resource, title r, booking_date rb).
         rb \<leftarrow> rows (resource_bookings db), r \<leftarrow> resources db,
         entity_id rb = resource_id r, text_le cur (booking_date rb)] @
      [(user_id sb, Space, space_name s, booking_date sb).
         sb \<leftarrow> rows (space_bookings db), s \<leftarrow> spaces db,
         entity_id sb = space_id s, text_le cur (booking_date sb)] @
      [(user_id eb, Event, event_name e, event_date e).
         eb \<leftarrow> rows (event_bookings db), e \<leftarrow> events db,
         entity_id eb = event_id e, text_le cur (event_date e)]) =
   reminders_db cur db"
  unfolding reminders_db_explicit
  by (simp add: map_concat comp_def map_if_list cong: if_cong)

lemma app_rows_explicit:
  assumes "text_le cur up"
  shows "map (\<lambda>(uid, k, label, d). (uid, reminder_tomorrow k label))
     (filter (\<lambda>(uid, k, label, d). d = up)
       ([(user_id rb, Resource, title r, booking_date rb).
           rb \<leftarrow> rows (resource_bookings db), r \<leftarrow> resources db,
           entity_id rb = resource_id r, text_le cur (booking_date rb)] @
        [(user_id sb, Space, space_name s, booking_date sb).
           sb \<leftarrow> rows (space_bookings db), s \<leftarrow> spaces db,
           entity_id sb = space_id s, text_le cur (booking_date sb)] @
        [(user_id eb, Event, event_name e, event_date e).
           eb \<leftarrow> rows (event_bookings db), e \<leftarrow> events db,
           entity_id eb = event_id e, text_le cur (event_date e)])) =
   reminders_app up db"
  unfolding reminders_app_explicit filter_append map_append
  by (simp only: app_rows_of_db_rows [OF assms])

text \<open>
  C9 (as amended). The claim: the two scans produce the same reminders, receivers and
  texts, for every database and date. They do not. For every database and every clock
  whose tomorrow exists (year 1000 or later): the scan of database.py reminds, in order,
  every joined row dated today or later, with the text "... is scheduled for <date>."; the
  scan of app.py reminds, of these same rows and in the same order, those dated exactly
  tomorrow, with the text "... is scheduled for tomorrow.". So the receivers of app.py's
  scan are a subsequence of the receivers of database.py's scan.
\<close>

theorem app_scan_within_db_scan:
  assumes "add_one_day (now clk) = Inr tomorrow" and "1000 \<le> year (now clk)"
  shows "\<exists>w' selected rd ra.
           selected =
             [(user_id rb, Resource, title r, booking_date rb).
                rb \<leftarrow> rows (resource_bookings (store w)), r \<leftarrow> resources (store w),
                entity_id rb = resource_id r, text_le (strftime (now clk)) (booking_date rb)] @
             [(user_id sb, Space, space_name s, booking_date sb).
                sb \<leftarrow> rows (space_bookings (store w)), s \<leftarrow> spaces (store w),
                entity_id sb = space_id s, text_le (strftime (now clk)) (booking_date sb)] @
             [(user_id eb, Event, event_name e, event_date e).
                eb \<leftarrow> rows (event_bookings (store w)), e \<leftarrow> events (store w),
                entity_id eb = event_id e, text_le (strftime (now clk)) (event_date e)] \<and>
           rd = map (\<lambda>(uid, k, label, d). (uid, reminder_on k label d)) selected \<and>
           ra = map (\<lambda>(uid, k, label, d). (uid, reminder_tomorrow k label))
                  (filter (\<lambda>(uid, k, label, d). d = strftime tomorrow) selected) \<and>
           attempts (stdout (check_upcoming_bookings_db clk w)) = attempts (stdout w) @ rd \<and>
           check_upcoming_bookings_app clk w = Inr w' \<and>
           attempts (stdout w') = attempts (stdout w) @ ra \<and>
           subseq (map fst ra) (map fst rd)"
proof -
  have le: "text_le (strftime (now clk)) (strftime tomorrow)"
    using strftime_add_one_day [OF assms(1)] .
  obtain w' where w': "check_upcoming_bookings_app clk w = Inr w'"
      "stdout w' = stdout w @ failed_sends (reminders_app (strftime tomorrow) (store w))"
    using check_app_effect [OF assms(1), of w] by blast
  then have a: "attempts (stdout w') =
      attempts (stdout w) @ reminders_app (strftime tomorrow) (store w)"
    by (simp add: attempts_append attempts_failed_sends)
  have b: "attempts (stdout (check_upcoming_bookings_db clk w)) =
      attempts (stdout w) @ reminders_db (strftime (now clk)) (store w)"
    by (simp add: check_db_effect attempts_append attempts_failed_sends)
  have s: "subseq (map fst (reminders_app (strftime tomorrow) (store w)))
                  (map fst (reminders_db (strftime (now clk)) (store w)))"
    using le by (rule receivers_reminders)
  let ?selected =
    "[(user_id rb, Resource, title r, booking_date rb).
        rb \<leftarrow> rows (resource_bookings (store w)), r \<leftarrow> resources (store w),
        entity_id rb = resource_id r, text_le (strftime (now clk)) (booking_date rb)] @
     [(user_id sb, Space, space_name s, booking_date sb).
        sb \<leftarrow> rows (space_bookings (store w)), s \<leftarrow> spaces (store w),
        entity_id sb = space_id s, text_le (strftime (now clk)) (booking_date sb)] @
     [(user_id eb, Event, event_name e, event_date e).
        eb \<leftarrow> rows (event_bookings (store w)), e \<leftarrow> events (store w),
        entity_id eb = event_id e, text_le (strftime (now clk)) (event_date e)]"
  let ?rd = "map (\<lambda>(uid, k, label, d). (uid, reminder_on k label d)) ?selected"
  let ?ra = "map (\<lambda>(uid, k, label, d). (uid, reminder_tomorrow k label))
               (filter (\<lambda>(uid, k, label, d). d = strftime tomorrow) ?selected)"
  have rd: "?rd = reminders_db (strftime (now clk)) (store w)"
    by (rule db_rows_explicit)
  have ra: "?ra = reminders_app (strftime tomorrow) (store w)"
    using le by (rule app_rows_explicit)
  have b': "attempts (stdout (check_upcoming_bookings_db clk w)) = attempts (stdout w) @ ?rd"
    unfolding rd by (rule b)
  have a': "attempts (stdout w') = attempts (stdout w) @ ?ra"
    unfolding ra by (rule a)
  have s': "subseq (map fst ?ra) (map fst ?rd)"
    unfolding ra rd by (rule s)
  show ?thesis
    by (intro exI conjI, rule refl, rule refl, rule refl, rule b', rule w'(1), rule a', rule s')
qed

text \<open>
  On \<open>db3\<close> at 2024-11-09 the two scans differ in the texts and in the receivers: user 3,
  whose booking is dated today, and the booking of the event of 2024-11-15 are reminded by
  the scan of database.py only.
\<close>

theorem scans_differ:
  "\<exists>w'. check_upcoming_bookings_app clock0 world3 = Inr w' \<and>
        attempts (stdout w') =
          [(1, ''Reminder: Your resource booking 'Ladder' is scheduled for tomorrow.''),
           (9, ''Reminder: Your space booking 'Hall' is scheduled for tomorrow.''),
           (2, ''Reminder: Your event 'Cleanup' is scheduled for tomorrow.'')] \<and>
        attempts (stdout (check_upcoming_bookings_db clock0 world3)) =
          [(1, ''Reminder: Your resource booking 'Ladder' is scheduled for 2024-11-10.''),
           (3, ''Reminder: Your resource booking 'Ladder' is scheduled for 2024-11-09.''),
           (9, ''Reminder: Your space booking 'Hall' is scheduled for 2024-11-10.''),
           (2, ''Reminder: Your event 'Cleanup' is scheduled for 2024-11-10.''),
           (1, ''Reminder: Your event 'Book Club' is scheduled for 2024-11-15.'')] \<and>
        set (map fst (attempts (stdout w'))) = {1, 2, 9} \<and>
        set (map fst (attempts (stdout (check_upcoming_bookings_db clock0 world3)))) =
          {1, 2, 3, 9}"
proof -
  obtain w' where w': "check_upcoming_bookings_app clock0 world3 = Inr w'"
      "attempts (stdout w') =
          [(1, ''Reminder: Your resource booking 'Ladder' is scheduled for tomorrow.''),
           (9, ''Reminder: Your space booking 'Hall' is scheduled for tomorrow.''),
           (2, ''Reminder: Your event 'Cleanup' is scheduled for tomorrow.'')]"
    using app_attempts_world3 by (elim exE conjE)
  have ra: "set (map fst (attempts (stdout w'))) = {1, 2, 9}"
    unfolding w'(2) by auto
  have rd: "set (map fst (attempts (stdout (check_upcoming_bookings_db clock0 world3)))) =
          {1, 2, 3, 9}"
    unfolding db_attempts_world3 by auto
  from w' db_attempts_world3 ra rd show ?thesis
    by (intro exI conjI)
qed

theorem app_scan_within_db_scan_witness:
  "add_one_day (now clock0) = Inr (Date 2024 11 10) \<and> 1000 \<le> year (now clock0) \<and>
   (\<exists>w'. check_upcoming_bookings_app clock0 world3 = Inr w' \<and>
      map fst (attempts (stdout w')) = [1, 9, 2] \<and>
      map fst (attempts (stdout (check_upcoming_bookings_db clock0 world3))) = [1, 3, 9, 2, 1] \<and>
      subseq (map fst (attempts (stdout w')))
             (map fst (attempts (stdout (check_upcoming_bookings_db clock0 world3)))))"
proof -
  have y: "1000 \<le> year (now clock0)" by (simp add: clock0_def)
  have a0: "attempts (stdout world3) = []" by (simp add: world3_def)
  from app_scan_within_db_scan [OF tomorrow0 y, of world3]
  obtain w' rd ra where
      r: "attempts (stdout (check_upcoming_bookings_db clock0 world3)) =
            attempts (stdout world3) @ rd"
         "check_upcoming_bookings_app clock0 world3 = Inr w'"
         "attempts (stdout w') = attempts (stdout world3) @ ra"
         "subseq (map fst ra) (map fst rd)"
    by (elim exE conjE)
  obtain w1 where w1: "check_upcoming_bookings_app clock0 world3 = Inr w1"
      "attempts (stdout w1) =
          [(1, ''Reminder: Your resource booking 'Ladder' is scheduled for tomorrow.''),
           (9, ''Reminder: Your space booking 'Hall' is scheduled for tomorrow.''),
           (2, ''Reminder: Your event 'Cleanup' is scheduled for tomorrow.'')]"
    using app_attempts_world3 by (elim exE conjE)
  from r(2) w1(1) have e: "w' = w1" by simp
  have "map fst (attempts (stdout w')) = [1, 9, 2]"
    unfolding e w1(2) by simp
  moreover have "map fst (attempts (stdout (check_upcoming_bookings_db clock0 world3))) =
      [1, 3, 9, 2, 1]"
    unfolding db_attempts_world3 by simp
  moreover have "subseq (map fst (attempts (stdout w')))
             (map fst (attempts (stdout (check_upcoming_bookings_db clock0 world3))))"
    using r(1,3,4) a0 by simp
  ultimately show ?thesis
    using r(2) tomorrow0 y by (intro exI conjI)
qed

section \<open>Booking routes and the booking store\<close>

lemma bookings_set_bookings: "bookings k (set_bookings k t db) = t"
  by (cases k) simp_all

lemma bookings_set_bookings_other: "k' \<noteq> k \<Longrightarrow> bookings k' (set_bookings k t db) = bookings k' db"
  by (cases k; cases k') simp_all

lemma labels_set_bookings: "labels k' (set_bookings k t db) = labels k' db"
  by (cases k; cases k') simp_all

lemma entity_found_set_bookings: "entity_found k' eid (set_bookings k t db) = entity_found k' eid db"
  by (cases k; cases k')
     (simp_all add: get_resource_by_id_def get_space_by_id_def get_event_by_id_def)

lemma book_Inr:
  assumes "book k uid eid bdate db = Inr db'"
  shows "db' = set_bookings k
           \<lparr>rows = rows (bookings k db) @
              [\<lparr>booking_id = next_rowid booking_id (bookings k db), user_id = uid,
                entity_id = eid, booking_date = bdate\<rparr>],
            last_rowid = next_rowid booking_id (bookings k db)\<rparr> db"
  using assms
  by (auto simp: book_def insert_booking_def Let_def split: if_splits sum.splits error.splits)

lemma book_without_foreign_keys:
  "\<not> foreign_keys db \<Longrightarrow> \<exists>db'. book k uid eid bdate db = Inr db'"
  by (simp add: book_def insert_booking_def Let_def)

lemma book_route_cases:
  assumes "book_route k clk session eid db = (db', resp)"
  shows "(db' = db \<and> snd (flash resp) \<noteq> ''success'') \<or>
         (\<exists>uid. session_user session = Some uid \<and> entity_found k eid db \<and>
                \<not> already_booked k uid eid db \<and>
                book k uid eid (strftime (now clk)) db = Inr db' \<and>
                resp = \<lparr>flash = (Noun k @ '' booked successfully!'', ''success''),
                        redirect = ViewPage k eid\<rparr>)"
  using assms
  by (auto simp: book_route_def Let_def split: option.splits if_splits sum.splits)

text \<open>
  C10. Every booking row created through book_resource_route, book_space_route or
  book_event_route carries as \<open>booking_date\<close> the current date at the moment of the
  request: the caller supplies no date. A call of a route either leaves the route's
  table as it was or appends exactly one row, for the logged-in user and the requested
  entity, dated \<open>strftime (now clk)\<close>; the other two booking tables are untouched.
\<close>

theorem booking_date_is_today:
  assumes "book_route k clk session eid db = (db', resp)"
  shows "(rows (bookings k db') = rows (bookings k db) \<or>
          (\<exists>b. rows (bookings k db') = rows (bookings k db) @ [b] \<and>
               booking_date b = strftime (now clk) \<and>
               session_user session = Some (user_id b) \<and> entity_id b = eid)) \<and>
         (\<forall>k'. k' \<noteq> k \<longrightarrow> bookings k' db' = bookings k' db)"
proof -
  from book_route_cases [OF assms] show ?thesis
  proof
    assume "db' = db \<and> snd (flash resp) \<noteq> ''success''"
    then show ?thesis by simp
  next
    assume "\<exists>uid. session_user session = Some uid \<and> entity_found k eid db \<and>
                \<not> already_booked k uid eid db \<and>
                book k uid eid (strftime (now clk)) db = Inr db' \<and>
                resp = \<lparr>flash = (Noun k @ '' booked successfully!'', ''success''),
                        redirect = ViewPage k eid\<rparr>"
    then obtain uid where u: "session_user session = Some uid"
      and b: "book k uid eid (strftime (now clk)) db = Inr db'"
      by blast
    show ?thesis
      unfolding book_Inr [OF b]
      by (simp add: bookings_set_bookings bookings_set_bookings_other u)
  qed
qed

lemma book_route_db0:
  "book_resource_route clock0 (Some 1) 7 db0 =
     (db0\<lparr>resource_bookings :=
            \<lparr>rows = [\<lparr>booking_id = 1, user_id = 1, entity_id = 7,
                       booking_date = ''2024-11-09''\<rparr>],
             last_rowid = 1\<rparr>\<rparr>,
      \<lparr>flash = (''Resource booked successfully!'', ''success''),
       redirect = ViewPage Resource 7\<rparr>)"
  by (simp add: book_route_def session_user_def get_resource_by_id_def already_booked_def
        book_def insert_booking_def next_rowid_def Let_def db0_def strftime_ex0)

theorem booking_date_is_today_witness:
  "\<exists>db' resp b. book_resource_route clock0 (Some 1) 7 db0 = (db', resp) \<and>
      rows (resource_bookings db') = rows (resource_bookings db0) @ [b] \<and>
      booking_date b = ''2024-11-09'' \<and> strftime (now clock0) = ''2024-11-09''"
proof -
  let ?db = "db0\<lparr>resource_bookings :=
            \<lparr>rows = [\<lparr>booking_id = 1, user_id = 1, entity_id = 7,
                       booking_date = ''2024-11-09''\<rparr>],
             last_rowid = 1\<rparr>\<rparr>"
  have "rows (bookings Resource ?db) \<noteq> rows (bookings Resource db0)"
    by (simp add: db0_def)
  with booking_date_is_today [OF book_route_db0]
  obtain b where "rows (bookings Resource ?db) = rows (bookings Resource db0) @ [b]"
      "booking_date b = strftime (now clock0)"
    by blast
  then show ?thesis
    using book_route_db0 strftime_ex0 by (intro exI [of _ ?db] exI [of _ b] exI) auto
qed

subsection \<open>One booking for each user and entity\<close>

lemma already_booked_iff:
  "already_booked k uid eid db \<longleftrightarrow>
     (uid, eid) \<in> set (map (\<lambda>b. (user_id b, entity_id b)) (rows (bookings k db)))"
  by (auto simp: already_booked_def list_ex_iff)

lemma book_keeps_unique:
  assumes "unique_bookings (bookings k db)" and "\<not> already_booked k uid eid db"
    and "book k uid eid bdate db = Inr db'"
  shows "unique_bookings (bookings k db') \<and> already_booked k uid eid db' \<and>
         entity_found k eid db' = entity_found k eid db"
  using assms(1,2) unfolding book_Inr [OF assms(3)]
  by (simp add: unique_bookings_def already_booked_iff bookings_set_bookings
        entity_found_set_bookings)

text \<open>
  C2 (as amended). The claim: at most one booking row exists for a (user, kind, entity)
  triple, a second create-booking call yields a duplicate-booking error and changes
  nothing, and the check is made by the store's insert itself. The tables have no UNIQUE
  constraint and book_resource, book_space and book_event insert without looking; the
  check is the SELECT of the route. What holds is at the level of the routes: a route
  keeps a table free of duplicate (user, entity) pairs, and after a successful booking
  the same request again is answered "already booked" and changes nothing.
\<close>

theorem route_keeps_bookings_unique:
  assumes "unique_bookings (bookings k db)"
    and "book_route k clk session eid db = (db', resp)"
  shows "unique_bookings (bookings k db') \<and>
         (flash resp = (Noun k @ '' booked successfully!'', ''success'') \<longrightarrow>
            book_route k clk' session eid db' =
              (db', \<lparr>flash = (''You have already booked this '' @ noun k @ ''.'', ''info''),
                     redirect = ViewPage k eid\<rparr>))"
proof -
  from book_route_cases [OF assms(2)] show ?thesis
  proof
    assume "db' = db \<and> snd (flash resp) \<noteq> ''success''"
    with assms(1) show ?thesis by auto
  next
    assume "\<exists>uid. session_user session = Some uid \<and> entity_found k eid db \<and>
                \<not> already_booked k uid eid db \<and>
                book k uid eid (strftime (now clk)) db = Inr db' \<and>
                resp = \<lparr>flash = (Noun k @ '' booked successfully!'', ''success''),
                        redirect = ViewPage k eid\<rparr>"
    then obtain uid where u: "session_user session = Some uid"
      and f: "entity_found k eid db" and n: "\<not> already_booked k uid eid db"
      and b: "book k uid eid (strftime (now clk)) db = Inr db'"
      by blast
    from book_keeps_unique [OF assms(1) n b] f u show ?thesis
      by (simp add: book_route_def)
  qed
qed

theorem route_keeps_bookings_unique_witness:
  "unique_bookings (resource_bookings db0) \<and>
   (\<exists>db' resp. book_resource_route clock0 (Some 1) 7 db0 = (db', resp) \<and>
      flash resp = (''Resource booked successfully!'', ''success'') \<and>
      unique_bookings (resource_bookings db') \<and>
      book_resource_route clock0 (Some 1) 7 db' =
        (db', \<lparr>flash = (''You have already booked this resource.'', ''info''),
               redirect = ViewPage Resource 7\<rparr>))"
proof -
  have u: "unique_bookings (bookings Resource db0)"
    by (simp add: unique_bookings_def db0_def)
  from route_keeps_bookings_unique [OF u book_route_db0, of clock0] u book_route_db0
  show ?thesis by simp
qed

text \<open>
  C2, the claim as stated fails: the store-level insert, called twice with the same user
  and resource, succeeds twice and leaves two rows for the pair.
\<close>

theorem store_insert_allows_duplicates:
  "\<exists>db' db''. book_resource 1 7 ''2024-11-09'' db0 = Inr db' \<and>
      book_resource 1 7 ''2024-11-09'' db' = Inr db'' \<and>
      map (\<lambda>b. (booking_id b, user_id b, entity_id b)) (rows (resource_bookings db'')) =
        [(1, 1, 7), (2, 1, 7)] \<and>
      \<not> unique_bookings (resource_bookings db'')"
  by (simp add: book_def insert_booking_def next_rowid_def Let_def db0_def unique_bookings_def)

subsection \<open>Cancelling\<close>

lemma unbook_route_logged_in:
  assumes "session_user session = Some uid"
  shows "unbook_route k session bid db =
     (if sqlite_integer bid \<and> sqlite_integer uid
      then (set_bookings k
              ((bookings k db)\<lparr>rows := filter (\<lambda>b. \<not> (booking_id b = bid \<and> user_id b = uid))
                                          (rows (bookings k db))\<rparr>) db,
            \<lparr>flash = (Noun k @ '' booking canceled successfully.'', ''success''),
             redirect = Profile\<rparr>)
      else (db, \<lparr>flash = (''An error occurred while canceling the booking. Please try again.'',
                          ''error''),
                 redirect = Profile\<rparr>))"
  using assms by (simp add: unbook_route_def Let_def)

text \<open>
  C5 (as amended). The claim: an unbook route deletes a booking only if it belongs to
  the caller; otherwise the booking stays, the operation reports failure, and the response
  does not reveal whether the booking exists under another owner. Deletion is as claimed:
  for a logged-in user and ids that SQLite can hold, exactly the rows with the given
  booking id and the caller's user id go, every row of another user stays, and the tables
  of the other kinds are untouched. Failure is not reported: the response is the flash
  "<Kind> booking canceled successfully." whatever was deleted. Only an id that does not
  fit SQLite's 64-bit INTEGER makes the statement raise, and then the route deletes
  nothing and flashes "An error occurred while canceling the booking. Please try again.".
  In both cases the response is the same for every database, so it reveals nothing about
  other users' bookings.
\<close>

theorem unbook_only_own_booking:
  assumes "session_user session = Some uid"
  shows "rows (bookings k (fst (unbook_route k session bid db))) =
           (if sqlite_integer bid \<and> sqlite_integer uid
            then filter (\<lambda>b. \<not> (booking_id b = bid \<and> user_id b = uid)) (rows (bookings k db))
            else rows (bookings k db)) \<and>
         (\<forall>b \<in> set (rows (bookings k db)).
            user_id b \<noteq> uid \<longrightarrow> b \<in> set (rows (bookings k (fst (unbook_route k session bid db))))) \<and>
         (\<forall>k'. k' \<noteq> k \<longrightarrow> bookings k' (fst (unbook_route k session bid db)) = bookings k' db) \<and>
         snd (unbook_route k session bid db) =
           (if sqlite_integer bid \<and> sqlite_integer uid
            then \<lparr>flash = (Noun k @ '' booking canceled successfully.'', ''success''),
                  redirect = Profile\<rparr>
            else \<lparr>flash = (''An error occurred while canceling the booking. Please try again.'',
                           ''error''),
                  redirect = Profile\<rparr>) \<and>
         snd (unbook_route k session bid db) = snd (unbook_route k session bid db')"
  by (simp add: unbook_route_logged_in [OF assms] bookings_set_bookings
        bookings_set_bookings_other)

theorem unbook_only_own_booking_witness:
  "session_user (Some 2) = Some 2 \<and> sqlite_integer 1 \<and> sqlite_integer 2 \<and>
   \<not> sqlite_integer (2 ^ 63) \<and>
   rows (resource_bookings (fst (unbook_resource (Some 2) 1 db1))) =
     [\<lparr>booking_id = 1, user_id = 1, entity_id = 7, booking_date = ''2024-11-10''\<rparr>] \<and>
   rows (resource_bookings (fst (unbook_resource (Some 1) 1 db1))) = [] \<and>
   snd (unbook_resource (Some 1) (2 ^ 63) db1) =
     \<lparr>flash = (''An error occurred while canceling the booking. Please try again.'', ''error''),
      redirect = Profile\<rparr>"
proof -
  have s: "session_user (Some 2) = Some 2" "session_user (Some 1) = Some 1"
    by (simp_all add: session_user_def)
  have i: "sqlite_integer 1" "sqlite_integer 2" "\<not> sqlite_integer (2 ^ 63)"
    by (simp_all add: sqlite_integer_def)
  from unbook_only_own_booking [OF s(1), of Resource 1 db1]
       unbook_only_own_booking [OF s(2), of Resource 1 db1]
       unbook_only_own_booking [OF s(2), of Resource "2 ^ 63" db1] s(1) i
  show ?thesis by (simp add: db1_def db0_def)
qed

text \<open>
  Booking 1 of \<open>db1\<close> belongs to user 1. User 2 asks to cancel it: nothing is deleted, and
  the answer is the success flash.
\<close>

theorem unbook_by_stranger_reports_success:
  "map user_id (filter (\<lambda>b. booking_id b = 1) (rows (resource_bookings db1))) = [1] \<and>
   unbook_resource (Some 2) 1 db1 =
     (db1, \<lparr>flash = (''Resource booking canceled successfully.'', ''success''),
            redirect = Profile\<rparr>)"
  by (simp add: unbook_route_def session_user_def sqlite_integer_def Let_def db1_def db0_def)

subsection \<open>Listing a user's bookings\<close>

lemma join_one_row:
  assumes "distinct (map fst ls)"
  shows "map fst (concat (map (\<lambda>e. if x = fst e then (if c then [(b, snd e)] else []) else []) ls)) =
         (if c \<and> x \<in> fst ` set ls then [b] else [])"
  using assms by (induction ls) (auto simp: image_iff)

lemma listed_bookings:
  assumes "distinct (map fst (labels k db))"
  shows "map fst (get_bookings_by_user k uid db) =
         filter (\<lambda>b. user_id b = uid \<and> entity_id b \<in> fst ` set (labels k db))
                (rows (bookings k db))"
proof -
  have "map fst (concat (map (\<lambda>b. concat (map (\<lambda>e. if entity_id b = fst e
            then (if user_id b = uid then [(b, snd e)] else []) else []) (labels k db))) bs)) =
        filter (\<lambda>b. user_id b = uid \<and> entity_id b \<in> fst ` set (labels k db)) bs" for bs
    by (induction bs) (simp_all add: join_one_row [OF assms])
  then show ?thesis
    by (simp add: get_bookings_by_user_def)
qed

lemma listed_labels:
  "(b, label) \<in> set (get_bookings_by_user k uid db) \<Longrightarrow>
   b \<in> set (rows (bookings k db)) \<and> user_id b = uid \<and> (entity_id b, label) \<in> set (labels k db)"
  by (auto simp: get_bookings_by_user_def split: if_splits)

text \<open>
  C8. For every user and each kind, the listing returns the user's bookings joined with
  the entity's display name, ordered by booking identifier ascending. With the bookings
  table in rowid order (its B-tree order) and the catalog's primary key unique, the
  listing holds exactly the user's booking rows whose entity exists, in the table's
  order; each is paired with the label of its entity; and the booking identifiers
  increase along the list.
\<close>

theorem bookings_listed_in_id_order:
  assumes "sorted_wrt (<) (map booking_id (rows (bookings k db)))"
    and "distinct (map fst (labels k db))"
  shows "map fst (get_bookings_by_user k uid db) =
           filter (\<lambda>b. user_id b = uid \<and> entity_id b \<in> fst ` set (labels k db))
                  (rows (bookings k db)) \<and>
         (\<forall>(b, label) \<in> set (get_bookings_by_user k uid db).
            (entity_id b, label) \<in> set (labels k db)) \<and>
         sorted_wrt (<) (map (\<lambda>(b, label). booking_id b) (get_bookings_by_user k uid db))"
proof -
  have m: "map (\<lambda>(b, label). booking_id b) (get_bookings_by_user k uid db) =
        map booking_id (map fst (get_bookings_by_user k uid db))"
    by (simp add: case_prod_beta)
  have "sorted_wrt (\<lambda>a b. booking_id a < booking_id b) (rows (bookings k db))"
    using assms(1) by (simp add: sorted_wrt_map)
  then have "sorted_wrt (\<lambda>a b. booking_id a < booking_id b)
        (filter (\<lambda>b. user_id b = uid \<and> entity_id b \<in> fst ` set (labels k db))
                (rows (bookings k db)))"
    by (rule sorted_wrt_filter)
  then have "sorted_wrt (<) (map (\<lambda>(b, label). booking_id b) (get_bookings_by_user k uid db))"
    unfolding m listed_bookings [OF assms(2)] by (simp add: sorted_wrt_map)
  moreover have "\<forall>(b, label) \<in> set (get_bookings_by_user k uid db).
            (entity_id b, label) \<in> set (labels k db)"
    using listed_labels by fast
  ultimately show ?thesis
    using listed_bookings [OF assms(2)] by blast
qed

theorem bookings_listed_in_id_order_witness:
  "sorted_wrt (<) (map booking_id (rows (resource_bookings db2))) \<and>
   distinct (map resource_id (resources db2)) \<and>
   map (\<lambda>(b, label). (booking_id b, label)) (get_resource_bookings_by_user 1 db2) =
     [(1, ''Drill''), (3, ''Ladder'')] \<and>
   sorted_wrt (<) (map (\<lambda>(b, label). booking_id b) (get_resource_bookings_by_user 1 db2))"
proof -
  have a: "sorted_wrt (<) (map booking_id (rows (bookings Resource db2)))"
    by (simp add: db2_def db0_def)
  have b: "distinct (map fst (labels Resource db2))"
    by (simp add: db2_def db0_def)
  have c: "map (\<lambda>(b, label). (booking_id b, label)) (get_resource_bookings_by_user 1 db2) =
     [(1, ''Drill''), (3, ''Ladder'')]"
    by (simp add: get_bookings_by_user_def db2_def db0_def)
  from bookings_listed_in_id_order [OF a b, of 1] a b c show ?thesis
    by (simp add: db2_def db0_def)
qed

text \<open>The rowid order of a bookings table is kept by booking and by cancelling.\<close>

lemma next_rowid_greater: "r \<in> set (rows t) \<Longrightarrow> key r < next_rowid key t"
proof -
  have "x \<in> set xs \<Longrightarrow> x \<le> foldr max xs (n::nat)" for x xs n
    by (induction xs) auto
  then show "r \<in> set (rows t) \<Longrightarrow> key r < next_rowid key t"
    by (force simp: next_rowid_def less_Suc_eq_le)
qed

lemma book_keeps_rowid_order:
  assumes "sorted_wrt (<) (map booking_id (rows (bookings k db)))"
    and "book k uid eid bdate db = Inr db'"
  shows "sorted_wrt (<) (map booking_id (rows (bookings k db')))"
  using assms(1) unfolding book_Inr [OF assms(2)]
  by (auto simp: bookings_set_bookings sorted_wrt_append next_rowid_greater)

lemma unbook_keeps_rowid_order:
  assumes "sorted_wrt (<) (map booking_id (rows (bookings k db)))"
  shows "sorted_wrt (<) (map booking_id (rows (bookings k (fst (unbook_route k session bid db)))))"
proof (cases "session_user session")
  case None
  then show ?thesis using assms by (simp add: unbook_route_def)
next
  case (Some uid)
  have "sorted_wrt (\<lambda>a b. booking_id a < booking_id b) (rows (bookings k db))"
    using assms by (simp add: sorted_wrt_map)
  then have "sorted_wrt (\<lambda>a b. booking_id a < booking_id b)
      (filter (\<lambda>b. \<not> (booking_id b = bid \<and> user_id b = uid)) (rows (bookings k db)))"
    by (rule sorted_wrt_filter)
  then show ?thesis
    using assms
    by (simp add: unbook_route_logged_in [OF Some] bookings_set_bookings sorted_wrt_map)
qed

end
